theory Spec2Isabelle
  imports Complex_Main "HOL-Library.AList"
begin

section \<open>Python values and exceptions\<close>

text \<open>
  The values that travel between the mapping layer and the document store: the kinds of
  the stored-document wire shape, plus the tuples and calendar dates that the codecs
  produce on the domain side. A double is kept by its exact rational value, with the two
  infinities and NaN apart. A mapping is an association list with string keys; its order
  is the iteration order of the dictionary.
\<close>

datatype pyfloat = Finite rat | PosInf | NegInf | NaN

datatype pyval =
    PNone
  | PBool bool
  | PInt int
  | PFloat pyfloat
  | PStr string
  | PBinary string
  | PObjectId string
  | PDatetime int int int int
  | PDate int int int
  | PList "pyval list"
  | PTuple "pyval list"
  | PDict "(string \<times> pyval) list"

type_synonym document = "(string \<times> pyval) list"

text \<open>
  Every exception that the modelled code can raise. The first group are Python's own, the
  second group is \<^verbatim>\<open>vultan/errors.py\<close> and the error of the object-id parser, the last
  one stands for any failure reported by the store client.
\<close>

datatype pyexn =
    TypeError
  | ValueError
  | AttributeError
  | AssertionError
  | NotImplementedError
  | OverflowError
  | UnicodeDecodeError
  | InvalidId
  | DocumentNotFoundError document
  | InvalidTransformContextError string
  | KeyMatchError document
  | ScalarUsedInVectorTransformContextError
  | UnrecognizedAttributeError string
  | UnsupportedMongodbOpError string
  | StoreError string

section \<open>Indexes and keys (\<^verbatim>\<open>vultan/document.py\<close>)\<close>

text \<open>
  An argument of \<^verbatim>\<open>Index(*args)\<close> is a bare field name or a tuple. \<^verbatim>\<open>_makepair\<close> cuts
  a longer tuple to its first two components, so \<open>Tuple2\<close> stands for every tuple of
  length two or more. The empty tuple gives the name \<^verbatim>\<open>None\<close>, hence field names are
  \<open>string option\<close>.
\<close>

datatype keyarg = Bare string | Tuple0 | Tuple1 string | Tuple2 string int

definition ASCENDING :: int where
  "ASCENDING = 1"

definition DESCENDING :: int where
  "DESCENDING = - 1"

fun makepair :: "keyarg \<Rightarrow> int \<Rightarrow> string option \<times> int" where
  "makepair (Bare p) d = (Some p, d)"
| "makepair (Tuple1 a) d = (Some a, d)"
| "makepair Tuple0 d = (None, d)"
| "makepair (Tuple2 a b) d = (Some a, b)"

text \<open>
  The classes \<^verbatim>\<open>Index\<close> and \<^verbatim>\<open>Key\<close> differ in the class attribute \<^verbatim>\<open>unique\<close> and in
  \<^verbatim>\<open>match\<close>; an object is its list of pairs and that flag.
\<close>

record Index =
  index :: "(string option \<times> int) list"
  unique :: bool

definition names :: "Index \<Rightarrow> string option list" where
  "names k = map fst (index k)"


definition Key_init :: "keyarg list \<Rightarrow> pyexn + Index" where
  "Key_init args =
     (if length args > 0
      then Inr \<lparr>index = map (\<lambda>arg. makepair arg ASCENDING) args, unique = True\<rparr>
      else Inl AssertionError)"

text \<open>\<^verbatim>\<open>head\<close> is \<^verbatim>\<open>names[0]\<close>; the constructor has asserted that there is one.\<close>

definition head :: "Index \<Rightarrow> string option" where
  "head k = hd (names k)"

text \<open>\<^verbatim>\<open>Index.__eq__\<close> compares the pair lists only, whatever the two classes are.\<close>

definition Index_eq :: "Index \<Rightarrow> Index \<Rightarrow> bool" where
  "Index_eq a b = (index a = index b)"

text \<open>\<^verbatim>\<open>name in query\<close> for a dictionary with string keys.\<close>

definition has_key :: "document \<Rightarrow> string option \<Rightarrow> bool" where
  "has_key query name = (case name of None \<Rightarrow> False | Some s \<Rightarrow> s \<in> set (map fst query))"

definition Index_match :: "Index \<Rightarrow> document \<Rightarrow> bool \<Rightarrow> pyexn + document" where
  "Index_match self query uniq = Inr query"

definition Key_match :: "Index \<Rightarrow> document \<Rightarrow> bool \<Rightarrow> pyexn + document" where
  "Key_match self query uniq =
     (if uniq
      then (if list_all (has_key query) (names self) then Inr query else Inl AssertionError)
      else (if has_key query (head self) then Inr query else Inl AssertionError))"

text \<open>The method call \<^verbatim>\<open>key.match(query, unique)\<close>, dispatched on the class of the key.\<close>

definition key_match :: "Index \<Rightarrow> document \<Rightarrow> bool \<Rightarrow> pyexn + document" where
  "key_match k query uniq =
     (if unique k then Key_match k query uniq else Index_match k query uniq)"

subsection \<open>The key set\<close>

record KeySet =
  ks_keys :: "(string option \<times> Index list) list"
  ks_names :: "string option set"

text \<open>Reading the \<^verbatim>\<open>defaultdict(list)\<close>: a missing head reads as the empty list.\<close>

definition keys_get :: "KeySet \<Rightarrow> string option \<Rightarrow> Index list" where
  "keys_get ks h = (case map_of (ks_keys ks) h of None \<Rightarrow> [] | Some l \<Rightarrow> l)"

definition key_in :: "Index \<Rightarrow> Index list \<Rightarrow> bool" where
  "key_in k l = list_ex (Index_eq k) l"

definition KeySet_add :: "KeySet \<Rightarrow> Index \<Rightarrow> KeySet" where
  "KeySet_add ks key =
     (if \<not> key_in key (keys_get ks (head key))
      then \<lparr>ks_keys = AList.update (head key) (keys_get ks (head key) @ [key]) (ks_keys ks),
            ks_names = ks_names ks \<union> set (names key)\<rparr>
      else ks)"

definition KeySet_update :: "KeySet \<Rightarrow> Index list \<Rightarrow> KeySet" where
  "KeySet_update ks keys = fold (\<lambda>key s. KeySet_add s key) keys ks"

definition Key_id :: Index where
  "Key_id = \<lparr>index = [(Some ''id'', ASCENDING)], unique = True\<rparr>"

definition KeySet_init :: "Index list \<Rightarrow> KeySet" where
  "KeySet_init args =
     KeySet_add (KeySet_update \<lparr>ks_keys = [], ks_names = {}\<rparr> args) Key_id"

text \<open>\<^verbatim>\<open>__iter__\<close>: the keys of all heads, list after list.\<close>

definition KeySet_iter :: "KeySet \<Rightarrow> Index list" where
  "KeySet_iter ks = concat (map snd (ks_keys ks))"

definition KeySet_contains :: "KeySet \<Rightarrow> string option \<Rightarrow> bool" where
  "KeySet_contains ks name = (name \<in> ks_names ks)"

text \<open>
  \<^verbatim>\<open>_KeySet.match\<close>: the inner loop tries the keys filed under one head and swallows every
  exception of \<^verbatim>\<open>key.match\<close>; the outer loop runs over the top-level names of the query.
  The two \<^verbatim>\<open>print\<close> statements before the \<^verbatim>\<open>raise\<close> write to standard output only.
\<close>

fun match_keys :: "Index list \<Rightarrow> document \<Rightarrow> bool \<Rightarrow> document option" where
  "match_keys [] query uniq = None"
| "match_keys (key # rest) query uniq =
     (case key_match key query uniq of
        Inr r \<Rightarrow> Some r
      | Inl e \<Rightarrow> match_keys rest query uniq)"

fun match_heads :: "KeySet \<Rightarrow> string list \<Rightarrow> document \<Rightarrow> bool \<Rightarrow> document option" where
  "match_heads ks [] query uniq = None"
| "match_heads ks (h # hs) query uniq =
     (case match_keys (keys_get ks (Some h)) query uniq of
        Some r \<Rightarrow> Some r
      | None \<Rightarrow> match_heads ks hs query uniq)"

definition KeySet_match :: "KeySet \<Rightarrow> document \<Rightarrow> bool \<Rightarrow> pyexn + document" where
  "KeySet_match ks query uniq =
     (case match_heads ks (map fst query) query uniq of
        Some r \<Rightarrow> Inr r
      | None \<Rightarrow> Inl (KeyMatchError query))"

text \<open>
  The metaclass builds the key set of a document class from the class's own keys and then
  merges the key set of every base class, in the order of the bases.
\<close>

definition schema_keys :: "Index list \<Rightarrow> KeySet list \<Rightarrow> KeySet" where
  "schema_keys own bases =
     fold (\<lambda>base ks. KeySet_update ks (KeySet_iter base)) bases (KeySet_init own)"

subsection \<open>Well-formed key sets and sequences of operations\<close>

text \<open>
  What \<^verbatim>\<open>add\<close> maintains: the heads of the dictionary are distinct and every key is
  filed in the list of its own head. A key built by \<^verbatim>\<open>Index.__init__\<close> has at least
  one pair.
\<close>

definition KeySet_filed :: "KeySet \<Rightarrow> bool" where
  "KeySet_filed ks =
     (distinct (map fst (ks_keys ks)) \<and>
      (\<forall>(h, l) \<in> set (ks_keys ks). \<forall>k \<in> set l. head k = h))"

definition valid_index :: "Index \<Rightarrow> bool" where
  "valid_index k = (index k \<noteq> [])"

definition KeySet_inv :: "KeySet \<Rightarrow> bool" where
  "KeySet_inv ks = (KeySet_filed ks \<and> list_all valid_index (KeySet_iter ks))"

text \<open>The top-level field names of a query or document, as names of key fields.\<close>

definition query_names :: "document \<Rightarrow> string option set" where
  "query_names query = Some ` fst ` set query"



section \<open>The Python runtime\<close>

text \<open>
  Conversions of the Python library whose results depend on text parsing or formatting are
  parameters of the model: none of them is code of this repository. An absent result
  stands for the one exception that the library function raises on the kinds of value
  modelled here (\<^verbatim>\<open>ValueError\<close> for a numeral that does not parse, \<^verbatim>\<open>OverflowError\<close> for
  an integer beyond the doubles, \<^verbatim>\<open>UnicodeDecodeError\<close> for bytes that are not text,
  \<^verbatim>\<open>InvalidId\<close> for a string that is no object id).
\<close>

record pylib =
  int_of_text :: "string \<Rightarrow> int option"
  float_of_text :: "string \<Rightarrow> pyfloat option"
  float_of_int :: "int \<Rightarrow> pyfloat option"
  text_of :: "pyval \<Rightarrow> string option"
  url_parts :: "string \<Rightarrow> string \<times> string"
  oid_of_text :: "string \<Rightarrow> string option"

text \<open>Running a sequence of calls until the first one raises.\<close>

fun try_map :: "('a \<Rightarrow> pyexn + 'b) \<Rightarrow> 'a list \<Rightarrow> pyexn + 'b list" where
  "try_map f [] = Inr []"
| "try_map f (x # xs) =
     (case f x of
        Inl e \<Rightarrow> Inl e
      | Inr y \<Rightarrow> (case try_map f xs of Inl e \<Rightarrow> Inl e | Inr ys \<Rightarrow> Inr (y # ys)))"

text \<open>Truth value of an object, as \<^verbatim>\<open>if value\<close> and \<^verbatim>\<open>bool(value)\<close> take it.\<close>

fun truthy :: "pyval \<Rightarrow> bool" where
  "truthy PNone = False"
| "truthy (PBool b) = b"
| "truthy (PInt i) = (i \<noteq> 0)"
| "truthy (PFloat f) = (f \<noteq> Finite 0)"
| "truthy (PStr s) = (s \<noteq> [])"
| "truthy (PBinary s) = (s \<noteq> [])"
| "truthy (PObjectId s) = True"
| "truthy (PDatetime y m d t) = True"
| "truthy (PDate y m d) = True"
| "truthy (PList xs) = (xs \<noteq> [])"
| "truthy (PTuple xs) = (xs \<noteq> [])"
| "truthy (PDict kvs) = (kvs \<noteq> [])"

text \<open>
  \<^verbatim>\<open>for item in value\<close>: a mapping yields its keys, a string its characters, and a value
  that is not iterable raises \<^verbatim>\<open>TypeError\<close>. \<^verbatim>\<open>len(value)\<close> is defined on the same kinds.
\<close>

fun py_iter :: "pyval \<Rightarrow> pyexn + pyval list" where
  "py_iter (PList xs) = Inr xs"
| "py_iter (PTuple xs) = Inr xs"
| "py_iter (PDict kvs) = Inr (map (\<lambda>kv. PStr (fst kv)) kvs)"
| "py_iter (PStr s) = Inr (map (\<lambda>c. PStr [c]) s)"
| "py_iter (PBinary s) = Inr (map (\<lambda>c. PStr [c]) s)"
| "py_iter v = Inl TypeError"

fun py_len :: "pyval \<Rightarrow> pyexn + nat" where
  "py_len (PList xs) = Inr (length xs)"
| "py_len (PTuple xs) = Inr (length xs)"
| "py_len (PDict kvs) = Inr (length kvs)"
| "py_len (PStr s) = Inr (length s)"
| "py_len (PBinary s) = Inr (length s)"
| "py_len v = Inl TypeError"

text \<open>The \<^verbatim>\<open>isinstance\<close> tests of the code; \<^verbatim>\<open>Binary\<close> is a subclass of \<^verbatim>\<open>str\<close>.\<close>

fun is_basestring :: "pyval \<Rightarrow> bool" where
  "is_basestring (PStr s) = True"
| "is_basestring (PBinary s) = True"
| "is_basestring v = False"

fun is_list :: "pyval \<Rightarrow> bool" where
  "is_list (PList xs) = True"
| "is_list v = False"

fun is_tuple :: "pyval \<Rightarrow> bool" where
  "is_tuple (PTuple xs) = True"
| "is_tuple v = False"

fun is_dict :: "pyval \<Rightarrow> bool" where
  "is_dict (PDict kvs) = True"
| "is_dict v = False"

fun is_datetime :: "pyval \<Rightarrow> bool" where
  "is_datetime (PDatetime y m d t) = True"
| "is_datetime v = False"

text \<open>
  Equality \<^verbatim>\<open>==\<close>. The numeric kinds compare by value across types
  (\<^verbatim>\<open>True == 1 == 1.0\<close>) and NaN equals nothing. Two lists, or two tuples, are equal when
  they have the same length and their items are equal in turn, by \<^verbatim>\<open>==\<close> again
  (\<^verbatim>\<open>(1,) == (1.0,)\<close>); a list never equals a tuple. Two mappings are equal when they have
  the same keys and the values under each key are equal. Every other pair is equal when
  both values are of the same kind and have the same content.
\<close>

fun py_num :: "pyval \<Rightarrow> pyfloat option" where
  "py_num (PBool b) = Some (Finite (if b then 1 else 0))"
| "py_num (PInt i) = Some (Finite (of_int i))"
| "py_num (PFloat f) = Some f"
| "py_num v = None"

fun py_eq :: "pyval \<Rightarrow> pyval \<Rightarrow> bool" where
  "py_eq (PList xs) b = (case b of PList ys \<Rightarrow> list_all2 py_eq xs ys | _ \<Rightarrow> False)"
| "py_eq (PTuple xs) b = (case b of PTuple ys \<Rightarrow> list_all2 py_eq xs ys | _ \<Rightarrow> False)"
| "py_eq (PDict kvs) b =
     (case b of
        PDict kvs' \<Rightarrow>
          set (map fst kvs) = set (map fst kvs')
          \<and> list_all (\<lambda>(k, v). case map_of kvs' k of None \<Rightarrow> False | Some v' \<Rightarrow> py_eq v v') kvs
      | _ \<Rightarrow> False)"
| "py_eq a b =
     (case py_num a of
        Some x \<Rightarrow> (case py_num b of Some y \<Rightarrow> x = y \<and> x \<noteq> NaN | None \<Rightarrow> False)
      | None \<Rightarrow> a = b)"

definition py_in :: "pyval \<Rightarrow> pyval list \<Rightarrow> bool" where
  "py_in x xs = list_ex (py_eq x) xs"

text \<open>Lists and mappings cannot be hashed, a tuple can when its components can.\<close>

fun hashable :: "pyval \<Rightarrow> bool" where
  "hashable (PList xs) = False"
| "hashable (PDict kvs) = False"
| "hashable (PTuple xs) = list_all hashable xs"
| "hashable v = True"

text \<open>
  \<^verbatim>\<open>int(value)\<close> and \<^verbatim>\<open>float(value)\<close>. A double is cut towards zero; an infinity raises
  \<^verbatim>\<open>OverflowError\<close> and NaN raises \<^verbatim>\<open>ValueError\<close>.
\<close>

fun py_int :: "pylib \<Rightarrow> pyval \<Rightarrow> pyexn + pyval" where
  "py_int L (PBool b) = Inr (PInt (if b then 1 else 0))"
| "py_int L (PInt i) = Inr (PInt i)"
| "py_int L (PFloat (Finite r)) = Inr (PInt (if 0 \<le> r then \<lfloor>r\<rfloor> else \<lceil>r\<rceil>))"
| "py_int L (PFloat NaN) = Inl ValueError"
| "py_int L (PFloat f) = Inl OverflowError"
| "py_int L (PStr s) =
     (case int_of_text L s of None \<Rightarrow> Inl ValueError | Some i \<Rightarrow> Inr (PInt i))"
| "py_int L (PBinary s) =
     (case int_of_text L s of None \<Rightarrow> Inl ValueError | Some i \<Rightarrow> Inr (PInt i))"
| "py_int L v = Inl TypeError"

fun py_float :: "pylib \<Rightarrow> pyval \<Rightarrow> pyexn + pyval" where
  "py_float L (PBool b) = Inr (PFloat (Finite (if b then 1 else 0)))"
| "py_float L (PInt i) =
     (case float_of_int L i of None \<Rightarrow> Inl OverflowError | Some f \<Rightarrow> Inr (PFloat f))"
| "py_float L (PFloat f) = Inr (PFloat f)"
| "py_float L (PStr s) =
     (case float_of_text L s of None \<Rightarrow> Inl ValueError | Some f \<Rightarrow> Inr (PFloat f))"
| "py_float L (PBinary s) =
     (case float_of_text L s of None \<Rightarrow> Inl ValueError | Some f \<Rightarrow> Inr (PFloat f))"
| "py_float L v = Inl TypeError"

text \<open>\<^verbatim>\<open>unicode(value)\<close>: text stays, everything else is formatted or decoded.\<close>

fun py_unicode :: "pylib \<Rightarrow> pyval \<Rightarrow> pyexn + pyval" where
  "py_unicode L (PStr s) = Inr (PStr s)"
| "py_unicode L v =
     (case text_of L v of None \<Rightarrow> Inl UnicodeDecodeError | Some s \<Rightarrow> Inr (PStr s))"

text \<open>
  The attributes \<^verbatim>\<open>year\<close>, \<^verbatim>\<open>month\<close> and \<^verbatim>\<open>day\<close> of dates and timestamps. Other
  attributes of built-in values (their methods) are outside the model.
\<close>

fun py_attr :: "pyval \<Rightarrow> string \<Rightarrow> pyval option" where
  "py_attr (PDatetime y m d t) a =
     (if a = ''year'' then Some (PInt y) else if a = ''month'' then Some (PInt m)
      else if a = ''day'' then Some (PInt d) else None)"
| "py_attr (PDate y m d) a =
     (if a = ''year'' then Some (PInt y) else if a = ''month'' then Some (PInt m)
      else if a = ''day'' then Some (PInt d) else None)"
| "py_attr v a = None"

text \<open>\<^verbatim>\<open>mapping.get(key, None)\<close>.\<close>

definition dict_get :: "document \<Rightarrow> string \<Rightarrow> pyval" where
  "dict_get d k = (case map_of d k of None \<Rightarrow> PNone | Some v \<Rightarrow> v)"

section \<open>Field types (\<^verbatim>\<open>vultan/types.py\<close>)\<close>

text \<open>
  A default is a plain value or a zero-argument callable; the callable is kept by the
  value that calling it returns.
\<close>

datatype pydefault = Static pyval | Generator pyval

text \<open>
  One constructor per class. \<open>Field\<close> is the base class, whose \<^verbatim>\<open>do_from_mongo\<close> is
  not implemented; the arguments are the constructor arguments that the transforms read.
  The allowed values of an enum are a Python list or tuple, in its own order.
\<close>

datatype field =
    Field
  | IdentityField
  | TupleField "field list"
  | ListField field
  | SetField field
  | ObjectIdField
  | StringField pyval
  | IntField pyval
  | FloatField pyval
  | EnumField "pyval list"
  | EnumSetField "pyval list"
  | BoolField pyval
  | BinaryField
  | ObjectField "(string \<times> field) list"
  | DateField pydefault
  | DatetimeField
  | UrlField

definition ObjectIdListField :: field where
  "ObjectIdListField = ListField ObjectIdField"

definition ObjectIdSetField :: field where
  "ObjectIdSetField = SetField ObjectIdField"

text \<open>
  \<^verbatim>\<open>_unique_list\<close>: the items in the order of their first occurrence. \<open>seen\<close> is the set
  of the comprehension; testing an item against it hashes the item.
\<close>

fun unique_items :: "pyval list \<Rightarrow> pyval list \<Rightarrow> pyexn + pyval list" where
  "unique_items seen [] = Inr []"
| "unique_items seen (item # rest) =
     (if \<not> hashable item then Inl TypeError
      else if py_in item seen then unique_items seen rest
      else (case unique_items (seen @ [item]) rest of
              Inl e \<Rightarrow> Inl e
            | Inr out \<Rightarrow> Inr (item # out)))"

definition unique_list :: "pyval \<Rightarrow> pyexn + pyval" where
  "unique_list seq =
     (case py_iter seq of
        Inl e \<Rightarrow> Inl e
      | Inr items \<Rightarrow> (case unique_items [] items of Inl e \<Rightarrow> Inl e | Inr out \<Rightarrow> Inr (PList out)))"

subsection \<open>Inbound transforms\<close>

text \<open>
  \<^verbatim>\<open>Field.from_mongo\<close>, applied to the outcome of \<^verbatim>\<open>self.do_from_mongo(value)\<close>:
  \<^verbatim>\<open>NotImplementedError\<close> is raised again, every other exception becomes \<^verbatim>\<open>None\<close>.
\<close>

definition Field_from_mongo :: "pyexn + pyval \<Rightarrow> pyexn + pyval" where
  "Field_from_mongo outcome =
     (case outcome of
        Inr v \<Rightarrow> Inr v
      | Inl e \<Rightarrow> (if e = NotImplementedError then Inl e else Inr PNone))"

text \<open>
  The methods of the classes. Where a method calls \<^verbatim>\<open>from_mongo\<close> or \<^verbatim>\<open>to_mongo\<close> of a
  subfield, the subfield's bound method is an argument.
\<close>

definition IdentityField_do_from_mongo :: "pyval \<Rightarrow> pyexn + pyval" where
  "IdentityField_do_from_mongo value = Inr value"

definition TupleField_do_from_mongo ::
    "(pyval \<Rightarrow> pyexn + pyval) list \<Rightarrow> pyval \<Rightarrow> pyexn + pyval" where
  "TupleField_do_from_mongo subfields value =
     (if is_basestring value then Inr PNone
      else (case py_len value of
              Inl e \<Rightarrow> Inr PNone
            | Inr n \<Rightarrow>
                if n \<noteq> length subfields then Inr PNone
                else (case py_iter value of
                        Inl e \<Rightarrow> Inr PNone
                      | Inr items \<Rightarrow>
                          (case try_map (\<lambda>(subfield, item). subfield item) (zip subfields items) of
                             Inl e \<Rightarrow> (if e = TypeError then Inr PNone else Inl e)
                           | Inr xs \<Rightarrow> Inr (PTuple xs)))))"

definition ListField_do_from_mongo ::
    "(pyval \<Rightarrow> pyexn + pyval) \<Rightarrow> pyval \<Rightarrow> pyexn + pyval" where
  "ListField_do_from_mongo subfield value =
     (case py_iter value of
        Inl e \<Rightarrow> Inr (PList [])
      | Inr vs \<Rightarrow>
          (case try_map subfield vs of
             Inl e \<Rightarrow> (if e = TypeError then Inr (PList []) else Inl e)
           | Inr items \<Rightarrow> Inr (PList (filter (\<lambda>x. \<not> py_eq x PNone) items))))"

definition SetField_do_from_mongo ::
    "(pyval \<Rightarrow> pyexn + pyval) \<Rightarrow> pyval \<Rightarrow> pyexn + pyval" where
  "SetField_do_from_mongo subfield value =
     (case ListField_do_from_mongo subfield value of
        Inl e \<Rightarrow> Inl e
      | Inr items \<Rightarrow> unique_list items)"

definition ObjectIdField_do_from_mongo :: "pyval \<Rightarrow> pyexn + pyval" where
  "ObjectIdField_do_from_mongo value =
     (case value of PObjectId s \<Rightarrow> Inr (PStr s) | _ \<Rightarrow> Inr PNone)"

definition StringField_do_from_mongo :: "pylib \<Rightarrow> pyval \<Rightarrow> pyval \<Rightarrow> pyexn + pyval" where
  "StringField_do_from_mongo L dflt value =
     (if py_eq value PNone then Inr dflt else py_unicode L value)"

definition IntField_do_from_mongo :: "pylib \<Rightarrow> pyval \<Rightarrow> pyval \<Rightarrow> pyexn + pyval" where
  "IntField_do_from_mongo L dflt value =
     (case py_int L value of
        Inr i \<Rightarrow> Inr i
      | Inl e \<Rightarrow> (if e = TypeError then Inr dflt else Inl e))"

definition FloatField_do_from_mongo :: "pylib \<Rightarrow> pyval \<Rightarrow> pyval \<Rightarrow> pyexn + pyval" where
  "FloatField_do_from_mongo L dflt value =
     (case py_float L value of
        Inr f \<Rightarrow> Inr f
      | Inl e \<Rightarrow> (if e = TypeError then Inr dflt else Inl e))"

definition EnumField_do_from_mongo :: "pyval list \<Rightarrow> pyval \<Rightarrow> pyexn + pyval" where
  "EnumField_do_from_mongo enum value = Inr (if py_in value enum then value else PNone)"

definition EnumSetField_do_from_mongo ::
    "pyval list \<Rightarrow> (pyval \<Rightarrow> pyexn + pyval) \<Rightarrow> pyval \<Rightarrow> pyexn + pyval" where
  "EnumSetField_do_from_mongo enum subfield value =
     (case SetField_do_from_mongo subfield value of
        Inl e \<Rightarrow> Inl e
      | Inr v \<Rightarrow>
          (case py_iter v of
             Inl e \<Rightarrow> Inl e
           | Inr vs \<Rightarrow> Inr (PList (filter (\<lambda>item. \<not> truthy v \<or> py_in item vs) enum))))"

definition BoolField_do_from_mongo :: "pyval \<Rightarrow> pyval \<Rightarrow> pyexn + pyval" where
  "BoolField_do_from_mongo dflt value =
     (if py_eq value PNone then Inr dflt else Inr (PBool (truthy value)))"

definition BinaryField_do_from_mongo :: "pyval \<Rightarrow> pyexn + pyval" where
  "BinaryField_do_from_mongo value =
     (case value of PBinary s \<Rightarrow> Inr (PStr s) | _ \<Rightarrow> Inr PNone)"

definition ObjectField_do_from_mongo ::
    "(string \<times> (pyval \<Rightarrow> pyexn + pyval)) list \<Rightarrow> pyval \<Rightarrow> pyexn + pyval" where
  "ObjectField_do_from_mongo subfields value =
     (let d = (case value of PDict kvs \<Rightarrow> kvs | _ \<Rightarrow> [])
      in case try_map (\<lambda>(name, subfield).
                 case subfield (dict_get d name) of
                   Inl e \<Rightarrow> Inl e
                 | Inr x \<Rightarrow> Inr (name, x)) subfields of
           Inl e \<Rightarrow> Inl e
         | Inr answer \<Rightarrow> Inr (PDict answer))"

definition get_default :: "pydefault \<Rightarrow> pyval" where
  "get_default d = (case d of Generator v \<Rightarrow> v | Static v \<Rightarrow> v)"

definition DateField_do_from_mongo :: "pydefault \<Rightarrow> pyval \<Rightarrow> pyexn + pyval" where
  "DateField_do_from_mongo dflt value =
     (case value of
        PDatetime y m d t \<Rightarrow> Inr (PDate y m d)
      | PDate y m d \<Rightarrow> Inr (PDate y m d)
      | _ \<Rightarrow> Inr (get_default dflt))"

definition DatetimeField_do_from_mongo :: "pyval \<Rightarrow> pyexn + pyval" where
  "DatetimeField_do_from_mongo value = Inr (if is_datetime value then value else PNone)"

text \<open>
  \<^verbatim>\<open>urlparse\<close> of a value that is not a string fails on a missing string method, or on
  hashing the value for its cache.
\<close>

definition UrlField_do_from_mongo :: "pylib \<Rightarrow> pyval \<Rightarrow> pyexn + pyval" where
  "UrlField_do_from_mongo L value =
     (case value of
        PStr s \<Rightarrow>
          (if fst (url_parts L s) = [] \<or> snd (url_parts L s) = [] then Inr PNone else Inr value)
      | PBinary s \<Rightarrow>
          (if fst (url_parts L s) = [] \<or> snd (url_parts L s) = [] then Inr PNone else Inr value)
      | PList xs \<Rightarrow> Inl TypeError
      | PDict kvs \<Rightarrow> Inl TypeError
      | _ \<Rightarrow> Inl AttributeError)"

text \<open>The method \<^verbatim>\<open>do_from_mongo\<close> of an object, by its class.\<close>

fun do_from_mongo :: "pylib \<Rightarrow> field \<Rightarrow> pyval \<Rightarrow> pyexn + pyval" where
  "do_from_mongo L Field value = Inl NotImplementedError"
| "do_from_mongo L IdentityField value = IdentityField_do_from_mongo value"
| "do_from_mongo L (TupleField subfields) value =
     TupleField_do_from_mongo
       (map (\<lambda>subfield item. Field_from_mongo (do_from_mongo L subfield item)) subfields) value"
| "do_from_mongo L (ListField subfield) value =
     ListField_do_from_mongo (\<lambda>item. Field_from_mongo (do_from_mongo L subfield item)) value"
| "do_from_mongo L (SetField subfield) value =
     SetField_do_from_mongo (\<lambda>item. Field_from_mongo (do_from_mongo L subfield item)) value"
| "do_from_mongo L ObjectIdField value = ObjectIdField_do_from_mongo value"
| "do_from_mongo L (StringField dflt) value = StringField_do_from_mongo L dflt value"
| "do_from_mongo L (IntField dflt) value = IntField_do_from_mongo L dflt value"
| "do_from_mongo L (FloatField dflt) value = FloatField_do_from_mongo L dflt value"
| "do_from_mongo L (EnumField enum) value = EnumField_do_from_mongo enum value"
| "do_from_mongo L (EnumSetField enum) value =
     EnumSetField_do_from_mongo enum
       (\<lambda>item. Field_from_mongo (EnumField_do_from_mongo enum item)) value"
| "do_from_mongo L (BoolField dflt) value = BoolField_do_from_mongo dflt value"
| "do_from_mongo L BinaryField value = BinaryField_do_from_mongo value"
| "do_from_mongo L (ObjectField subfields) value =
     ObjectField_do_from_mongo
       (map (\<lambda>p. (fst p, \<lambda>item. Field_from_mongo (do_from_mongo L (snd p) item))) subfields)
       value"
| "do_from_mongo L (DateField dflt) value = DateField_do_from_mongo dflt value"
| "do_from_mongo L DatetimeField value = DatetimeField_do_from_mongo value"
| "do_from_mongo L UrlField value = UrlField_do_from_mongo L value"

definition from_mongo :: "pylib \<Rightarrow> field \<Rightarrow> pyval \<Rightarrow> pyexn + pyval" where
  "from_mongo L f value = Field_from_mongo (do_from_mongo L f value)"

subsection \<open>Outbound transforms\<close>

text \<open>
  \<^verbatim>\<open>Field.do_to_mongo\<close> is \<^verbatim>\<open>do_from_mongo\<close> unless a class overrides it, and
  \<^verbatim>\<open>Field.to_mongo\<close> selects by the transform context, which is a string.
\<close>

definition Field_do_to_mongo :: "(pyval \<Rightarrow> pyexn + pyval) \<Rightarrow> pyval \<Rightarrow> pyexn + pyval" where
  "Field_do_to_mongo self_do_from_mongo value = self_do_from_mongo value"

definition Field_to_mongo ::
    "(pyval \<Rightarrow> pyexn + pyval) \<Rightarrow> pyval \<Rightarrow> string \<Rightarrow> pyexn + pyval" where
  "Field_to_mongo self_do_to_mongo value context =
     (if context = ''AUTO'' \<or> context = ''NONE'' then self_do_to_mongo value
      else if context = ''MANY'' then
        (case py_iter value of
           Inl e \<Rightarrow> Inl e
         | Inr items \<Rightarrow>
             (case try_map self_do_to_mongo items of Inl e \<Rightarrow> Inl e | Inr xs \<Rightarrow> Inr (PList xs)))
      else if context \<in> set [''ATOM'', ''LIST''] then Inl ScalarUsedInVectorTransformContextError
      else Inl (InvalidTransformContextError context))"

definition IdentityField_do_to_mongo :: "pyval \<Rightarrow> pyexn + pyval" where
  "IdentityField_do_to_mongo value = Inr value"

definition TupleField_do_to_mongo ::
    "(pyval \<Rightarrow> pyexn + pyval) list \<Rightarrow> pyval \<Rightarrow> pyexn + pyval" where
  "TupleField_do_to_mongo subfields value =
     (case value of
        PTuple items \<Rightarrow>
          if length items \<noteq> length subfields then Inl AssertionError
          else (case try_map (\<lambda>(subfield, item). subfield item) (zip subfields items) of
                  Inl e \<Rightarrow> Inl e
                | Inr xs \<Rightarrow> Inr (PList xs))
      | _ \<Rightarrow> Inl AssertionError)"

definition ListField_do_to_mongo ::
    "(pyval \<Rightarrow> pyexn + pyval) \<Rightarrow> pyval \<Rightarrow> pyexn + pyval" where
  "ListField_do_to_mongo subfield value =
     (if \<not> truthy value then Inr (PList [])
      else (case py_iter value of
              Inl e \<Rightarrow> Inl e
            | Inr vs \<Rightarrow>
                (case try_map subfield vs of
                   Inl e \<Rightarrow> Inl e
                 | Inr items \<Rightarrow> Inr (PList (filter (\<lambda>x. \<not> py_eq x PNone) items)))))"

definition ListField_to_mongo ::
    "(pyval \<Rightarrow> pyexn + pyval) \<Rightarrow> (pyval \<Rightarrow> pyexn + pyval) \<Rightarrow> pyval \<Rightarrow> string
       \<Rightarrow> pyexn + pyval" where
  "ListField_to_mongo self_do_to_mongo subfield value context =
     (if context \<in> set [''LIST'', ''MANY''] then self_do_to_mongo value
      else if context = ''ATOM'' then subfield value
      else if context \<in> set [''AUTO'', ''NONE''] then
        (if is_list value then self_do_to_mongo value else subfield value)
      else Inl (InvalidTransformContextError context))"

definition SetField_do_to_mongo ::
    "(pyval \<Rightarrow> pyexn + pyval) \<Rightarrow> pyval \<Rightarrow> pyexn + pyval" where
  "SetField_do_to_mongo subfield value =
     (if \<not> truthy value then Inr (PList [])
      else (case unique_list value of
              Inl e \<Rightarrow> Inl e
            | Inr items \<Rightarrow> ListField_do_to_mongo subfield items))"

definition ObjectIdField_do_to_mongo :: "pylib \<Rightarrow> pyval \<Rightarrow> pyexn + pyval" where
  "ObjectIdField_do_to_mongo L value =
     (case value of
        PObjectId s \<Rightarrow> Inr value
      | PStr s \<Rightarrow> (case oid_of_text L s of None \<Rightarrow> Inl InvalidId | Some i \<Rightarrow> Inr (PObjectId i))
      | PBinary s \<Rightarrow> (case oid_of_text L s of None \<Rightarrow> Inl InvalidId | Some i \<Rightarrow> Inr (PObjectId i))
      | PNone \<Rightarrow> Inr PNone
      | _ \<Rightarrow> Inl AssertionError)"

definition StringField_do_to_mongo :: "pylib \<Rightarrow> pyval \<Rightarrow> pyexn + pyval" where
  "StringField_do_to_mongo L value =
     (if py_eq value PNone then Inr PNone else py_unicode L value)"

definition IntField_do_to_mongo :: "pylib \<Rightarrow> pyval \<Rightarrow> pyexn + pyval" where
  "IntField_do_to_mongo L value =
     (if py_eq value PNone then Inr PNone else py_int L value)"

definition FloatField_do_to_mongo :: "pylib \<Rightarrow> pyval \<Rightarrow> pyexn + pyval" where
  "FloatField_do_to_mongo L value =
     (if py_eq value PNone then Inr PNone else py_float L value)"

text \<open>\<^verbatim>\<open>EnumField\<close> overrides neither \<^verbatim>\<open>to_mongo\<close> nor \<^verbatim>\<open>do_to_mongo\<close>.\<close>

definition EnumField_to_mongo :: "pyval list \<Rightarrow> pyval \<Rightarrow> string \<Rightarrow> pyexn + pyval" where
  "EnumField_to_mongo enum value context =
     Field_to_mongo (Field_do_to_mongo (EnumField_do_from_mongo enum)) value context"

definition EnumSetField_do_to_mongo ::
    "pyval list \<Rightarrow> (pyval \<Rightarrow> pyexn + pyval) \<Rightarrow> pyval \<Rightarrow> pyexn + pyval" where
  "EnumSetField_do_to_mongo enum subfield value =
     (case SetField_do_to_mongo subfield value of
        Inl e \<Rightarrow> Inl e
      | Inr v \<Rightarrow>
          (case py_len v of
             Inl e \<Rightarrow> Inl e
           | Inr n \<Rightarrow> Inr (if n \<noteq> length enum then v else PList [])))"

text \<open>\<^verbatim>\<open>Binary(value)\<close> accepts a byte string only.\<close>

definition BinaryField_do_to_mongo :: "pyval \<Rightarrow> pyexn + pyval" where
  "BinaryField_do_to_mongo value =
     (case value of
        PStr s \<Rightarrow> Inr (PBinary s)
      | PBinary s \<Rightarrow> Inr (PBinary s)
      | _ \<Rightarrow> Inl TypeError)"

definition ObjectField_do_to_mongo ::
    "(string \<times> (pyval \<Rightarrow> pyexn + pyval)) list \<Rightarrow> pyval \<Rightarrow> pyexn + pyval" where
  "ObjectField_do_to_mongo subfields value =
     (let lookup = (case value of
                      PDict kvs \<Rightarrow> (\<lambda>k. dict_get kvs k)
                    | _ \<Rightarrow> (\<lambda>k. case py_attr value k of None \<Rightarrow> PNone | Some v \<Rightarrow> v))
      in case try_map (\<lambda>(name, subfield).
                 case subfield (lookup name) of
                   Inl e \<Rightarrow> Inl e
                 | Inr x \<Rightarrow> Inr (name, x)) subfields of
           Inl e \<Rightarrow> Inl e
         | Inr answer \<Rightarrow> Inr (PDict answer))"

definition DateField_do_to_mongo :: "pyval \<Rightarrow> pyexn + pyval" where
  "DateField_do_to_mongo value =
     (case value of
        PDatetime y m d t \<Rightarrow> Inr (PDatetime y m d 0)
      | PDate y m d \<Rightarrow> Inr (PDatetime y m d 0)
      | _ \<Rightarrow> Inl AttributeError)"

definition DatetimeField_do_to_mongo :: "pyval \<Rightarrow> pyexn + pyval" where
  "DatetimeField_do_to_mongo value =
     (if \<not> truthy value then Inr PNone
      else if is_datetime value then Inr value
      else Inl AssertionError)"

definition UrlField_do_to_mongo :: "pylib \<Rightarrow> pyval \<Rightarrow> pyexn + pyval" where
  "UrlField_do_to_mongo L value =
     (if \<not> truthy value then Inr PNone
      else (case UrlField_do_from_mongo L value of
              Inl e \<Rightarrow> Inl e
            | Inr transformed \<Rightarrow>
                if \<not> truthy transformed then Inl ValueError else Inr transformed))"

text \<open>
  The methods \<^verbatim>\<open>do_to_mongo\<close> and \<^verbatim>\<open>to_mongo\<close> of an object, by its class. A call
  \<^verbatim>\<open>subfield.to_mongo(item)\<close> runs under the default context \<^verbatim>\<open>'AUTO'\<close>.
\<close>

fun do_to_mongo :: "pylib \<Rightarrow> field \<Rightarrow> pyval \<Rightarrow> pyexn + pyval"
  and to_mongo :: "pylib \<Rightarrow> field \<Rightarrow> pyval \<Rightarrow> string \<Rightarrow> pyexn + pyval" where
  "do_to_mongo L Field value = Field_do_to_mongo (do_from_mongo L Field) value"
| "do_to_mongo L IdentityField value = IdentityField_do_to_mongo value"
| "do_to_mongo L (TupleField subfields) value =
     TupleField_do_to_mongo (map (\<lambda>subfield item. to_mongo L subfield item ''AUTO'') subfields) value"
| "do_to_mongo L (ListField subfield) value =
     ListField_do_to_mongo (\<lambda>item. to_mongo L subfield item ''AUTO'') value"
| "do_to_mongo L (SetField subfield) value =
     SetField_do_to_mongo (\<lambda>item. to_mongo L subfield item ''AUTO'') value"
| "do_to_mongo L ObjectIdField value = ObjectIdField_do_to_mongo L value"
| "do_to_mongo L (StringField dflt) value = StringField_do_to_mongo L value"
| "do_to_mongo L (IntField dflt) value = IntField_do_to_mongo L value"
| "do_to_mongo L (FloatField dflt) value = FloatField_do_to_mongo L value"
| "do_to_mongo L (EnumField enum) value =
     Field_do_to_mongo (do_from_mongo L (EnumField enum)) value"
| "do_to_mongo L (EnumSetField enum) value =
     EnumSetField_do_to_mongo enum (\<lambda>item. EnumField_to_mongo enum item ''AUTO'') value"
| "do_to_mongo L (BoolField dflt) value =
     Field_do_to_mongo (do_from_mongo L (BoolField dflt)) value"
| "do_to_mongo L BinaryField value = BinaryField_do_to_mongo value"
| "do_to_mongo L (ObjectField subfields) value =
     ObjectField_do_to_mongo
       (map (\<lambda>p. (fst p, \<lambda>item. to_mongo L (snd p) item ''AUTO'')) subfields) value"
| "do_to_mongo L (DateField dflt) value = DateField_do_to_mongo value"
| "do_to_mongo L DatetimeField value = DatetimeField_do_to_mongo value"
| "do_to_mongo L UrlField value = UrlField_do_to_mongo L value"
| "to_mongo L (ListField subfield) value context =
     ListField_to_mongo (\<lambda>v. do_to_mongo L (ListField subfield) v)
       (\<lambda>v. to_mongo L subfield v ''AUTO'') value context"
| "to_mongo L (SetField subfield) value context =
     ListField_to_mongo (\<lambda>v. do_to_mongo L (SetField subfield) v)
       (\<lambda>v. to_mongo L subfield v ''AUTO'') value context"
| "to_mongo L (EnumSetField enum) value context =
     ListField_to_mongo (\<lambda>v. do_to_mongo L (EnumSetField enum) v)
       (\<lambda>v. EnumField_to_mongo enum v ''AUTO'') value context"
| "to_mongo L f value context = Field_to_mongo (\<lambda>v. do_to_mongo L f v) value context"


text \<open>
  The allowed values of an enum form a set: they are pairwise different, Python's \<^verbatim>\<open>==\<close>
  holds between two of them only when they are the same value (no two of them are equal
  numbers of different types, or tuples of such numbers, and none is or holds NaN), they
  can be hashed, and \<^verbatim>\<open>None\<close> is not one of them.
\<close>

definition enum_members :: "pyval list \<Rightarrow> bool" where
  "enum_members enum =
     (distinct enum \<and> PNone \<notin> set enum
      \<and> (\<forall>x \<in> set enum. hashable x \<and> (\<forall>y \<in> set enum. py_eq x y = (x = y))))"

section \<open>Attributes and schema composition (\<^verbatim>\<open>vultan/document.py\<close>)\<close>

text \<open>
  A field object as the mapper sees it: its class with the constructor arguments, and the
  store-side name set by \<^verbatim>\<open>dbname\<close>, if any.
\<close>

type_synonym fieldtype = "field \<times> string option"

definition dbname :: "fieldtype \<Rightarrow> string \<Rightarrow> fieldtype" where
  "dbname self name = (fst self, Some name)"

definition get_dbname :: "fieldtype \<Rightarrow> string \<Rightarrow> string" where
  "get_dbname self name = (case snd self of Some d \<Rightarrow> d | None \<Rightarrow> name)"

type_synonym attributes = "(string \<times> fieldtype) list"

definition Attributes_init :: "attributes \<Rightarrow> attributes" where
  "Attributes_init dct =
     (if ''id'' \<notin> set (map fst dct)
      then AList.update ''id'' (dbname (ObjectIdField, None) ''_id'') dct
      else dct)"

fun Attributes_update :: "attributes \<Rightarrow> (string \<times> fieldtype) list \<Rightarrow> pyexn + attributes" where
  "Attributes_update dct [] = Inr dct"
| "Attributes_update dct ((name, fieldtype) # rest) =
     (if name \<noteq> ''id''
      then (if name \<notin> set (map fst dct)
            then Attributes_update (AList.update name fieldtype dct) rest
            else Inl AssertionError)
      else Attributes_update dct rest)"

definition Attributes_get_fieldtype :: "attributes \<Rightarrow> string \<Rightarrow> fieldtype option" where
  "Attributes_get_fieldtype dct name = map_of dct name"

definition Attributes_get_dbname :: "attributes \<Rightarrow> string \<Rightarrow> string" where
  "Attributes_get_dbname dct name =
     (case Attributes_get_fieldtype dct name of
        None \<Rightarrow> name
      | Some fieldtype \<Rightarrow> get_dbname fieldtype name)"

text \<open>
  The metaclass wraps the attributes that the class declares and then merges the
  attributes of every base class, in the order of the bases.
\<close>

fun merge_attributes :: "attributes \<Rightarrow> attributes list \<Rightarrow> pyexn + attributes" where
  "merge_attributes attrs [] = Inr attrs"
| "merge_attributes attrs (base # bases) =
     (case Attributes_update attrs base of
        Inl e \<Rightarrow> Inl e
      | Inr attrs' \<Rightarrow> merge_attributes attrs' bases)"

definition schema_attributes :: "attributes \<Rightarrow> attributes list \<Rightarrow> pyexn + attributes" where
  "schema_attributes own bases = merge_attributes (Attributes_init own) bases"

section \<open>The mapper (\<^verbatim>\<open>vultan/new.py\<close>)\<close>

text \<open>What \<^verbatim>\<open>Storage.__init__\<close> takes from the document class.\<close>

record schema =
  s_keys :: KeySet
  s_attributes :: attributes

definition startswith :: "string \<Rightarrow> string \<Rightarrow> bool" where
  "startswith s p = (take (length p) s = p)"

definition get_fieldtype :: "schema \<Rightarrow> string \<Rightarrow> pyexn + fieldtype" where
  "get_fieldtype S name =
     (case Attributes_get_fieldtype (s_attributes S) name of
        None \<Rightarrow>
          (if CHR ''.'' \<in> set name then Inr (IdentityField, None)
           else Inl (UnrecognizedAttributeError name))
      | Some fieldtype \<Rightarrow> Inr fieldtype)"

text \<open>
  \<^verbatim>\<open>_to_mongo\<close>: the loop over the items of the document, with the dictionary
  \<^verbatim>\<open>answer\<close> built so far.
\<close>

fun to_mongo_items ::
    "pylib \<Rightarrow> schema \<Rightarrow> string \<Rightarrow> bool \<Rightarrow> document \<Rightarrow> document \<Rightarrow> pyexn + document" where
  "to_mongo_items L S context dotransform [] answer = Inr answer"
| "to_mongo_items L S context dotransform ((key, value) # rest) answer =
     (case get_fieldtype S key of
        Inl e \<Rightarrow> Inl e
      | Inr fieldtype \<Rightarrow>
          (case (if dotransform then to_mongo L (fst fieldtype) value context else Inr value) of
             Inl e \<Rightarrow> Inl e
           | Inr v \<Rightarrow>
               to_mongo_items L S context dotransform rest
                 (AList.update (get_dbname fieldtype key) v answer)))"

definition Storage_to_mongo ::
    "pylib \<Rightarrow> schema \<Rightarrow> document \<Rightarrow> string \<Rightarrow> bool \<Rightarrow> pyexn + document" where
  "Storage_to_mongo L S doc context dotransform = to_mongo_items L S context dotransform doc []"

definition document_to_mongo :: "pylib \<Rightarrow> schema \<Rightarrow> document \<Rightarrow> pyexn + document" where
  "document_to_mongo L S doc = Storage_to_mongo L S doc ''AUTO'' True"

text \<open>\<^verbatim>\<open>_query_to_mongo\<close>: the operator loop of \<^verbatim>\<open>helper\<close>, \<^verbatim>\<open>helper\<close>, and the outer loop.\<close>

fun query_ops :: "pylib \<Rightarrow> fieldtype \<Rightarrow> document \<Rightarrow> document \<Rightarrow> pyexn + document" where
  "query_ops L fieldtype [] dct = Inr dct"
| "query_ops L fieldtype ((op, val) # rest) dct =
     (if op \<in> set [''$gt'', ''$lt'', ''$gte'', ''$lte'', ''$ne''] then
        (case to_mongo L (fst fieldtype) val ''AUTO'' of
           Inl e \<Rightarrow> Inl e
         | Inr v \<Rightarrow> query_ops L fieldtype rest (AList.update op v dct))
      else if op \<in> set [''$in'', ''$nin''] then
        (case to_mongo L (fst fieldtype) val ''MANY'' of
           Inl e \<Rightarrow> Inl e
         | Inr v \<Rightarrow> query_ops L fieldtype rest (AList.update op v dct))
      else Inl (UnsupportedMongodbOpError op))"

definition query_helper :: "pylib \<Rightarrow> fieldtype \<Rightarrow> pyval \<Rightarrow> pyexn + pyval" where
  "query_helper L fieldtype value =
     (case value of
        PDict ops \<Rightarrow>
          if list_all (\<lambda>kv. startswith (fst kv) ''$'') ops
          then (case query_ops L fieldtype ops [] of Inl e \<Rightarrow> Inl e | Inr dct \<Rightarrow> Inr (PDict dct))
          else to_mongo L (fst fieldtype) value ''NONE''
      | _ \<Rightarrow> to_mongo L (fst fieldtype) value ''NONE'')"

fun query_items :: "pylib \<Rightarrow> schema \<Rightarrow> document \<Rightarrow> document \<Rightarrow> pyexn + document" where
  "query_items L S [] answer = Inr answer"
| "query_items L S ((key, value) # rest) answer =
     (case get_fieldtype S key of
        Inl e \<Rightarrow> Inl e
      | Inr fieldtype \<Rightarrow>
          (case query_helper L fieldtype value of
             Inl e \<Rightarrow> Inl e
           | Inr v \<Rightarrow> query_items L S rest (AList.update (get_dbname fieldtype key) v answer)))"

definition query_to_mongo :: "pylib \<Rightarrow> schema \<Rightarrow> document \<Rightarrow> pyexn + document" where
  "query_to_mongo L S doc = query_items L S doc []"

text \<open>
  \<^verbatim>\<open>_update_to_mongo\<close>. The value under an operator key is handed to \<^verbatim>\<open>_to_mongo\<close>, which
  calls \<^verbatim>\<open>iteritems\<close> on it: a value that is not a mapping raises \<^verbatim>\<open>AttributeError\<close>.
\<close>

definition operand_to_mongo ::
    "pylib \<Rightarrow> schema \<Rightarrow> pyval \<Rightarrow> string \<Rightarrow> bool \<Rightarrow> pyexn + pyval" where
  "operand_to_mongo L S value context dotransform =
     (case value of
        PDict doc \<Rightarrow>
          (case Storage_to_mongo L S doc context dotransform of
             Inl e \<Rightarrow> Inl e
           | Inr answer \<Rightarrow> Inr (PDict answer))
      | _ \<Rightarrow> Inl AttributeError)"

fun update_items :: "pylib \<Rightarrow> schema \<Rightarrow> document \<Rightarrow> document \<Rightarrow> pyexn + document" where
  "update_items L S [] answer = Inr answer"
| "update_items L S ((key, value) # rest) answer =
     (if startswith key ''$'' then
        (case (if key \<in> set [''$set'', ''$unset''] then operand_to_mongo L S value ''AUTO'' True
               else if key \<in> set [''$push'', ''$pull''] then operand_to_mongo L S value ''ATOM'' True
               else if key \<in> set [''$pushAll'', ''$pullAll''] then
                 operand_to_mongo L S value ''LIST'' True
               else if key \<in> set [''$inc'', ''$pop''] then
                 operand_to_mongo L S value ''AUTO'' False
               else Inl (UnsupportedMongodbOpError key)) of
           Inl e \<Rightarrow> Inl e
         | Inr v \<Rightarrow> update_items L S rest (AList.update key v answer))
      else
        (case get_fieldtype S key of
           Inl e \<Rightarrow> Inl e
         | Inr fieldtype \<Rightarrow>
             (case to_mongo L (fst fieldtype) value ''AUTO'' of
                Inl e \<Rightarrow> Inl e
              | Inr v \<Rightarrow>
                  update_items L S rest (AList.update (get_dbname fieldtype key) v answer))))"

definition update_to_mongo :: "pylib \<Rightarrow> schema \<Rightarrow> document \<Rightarrow> pyexn + document" where
  "update_to_mongo L S doc = update_items L S doc []"

text \<open>
  The key of the store-native update document that the entry of an update document under
  \<open>key\<close> is written to: the operator itself, or the store-side name of the field.
\<close>

definition update_target :: "schema \<Rightarrow> string \<Rightarrow> string" where
  "update_target S key =
     (if startswith key ''$'' then key
      else (case get_fieldtype S key of Inl e \<Rightarrow> key | Inr fieldtype \<Rightarrow> get_dbname fieldtype key))"

subsection \<open>The store\<close>

text \<open>
  The collection is the external collaborator. Its primitives are parameters: functions of
  an arbitrary store state that return a result, or the error of the store client, and
  the next state. The handle of the collection is taken as given. Every primitive that
  the mapper issues is also recorded, in order. Of the result of an update or a removal
  the mapper reads the entries \<^verbatim>\<open>updatedExisting\<close> and \<^verbatim>\<open>n\<close>; the latter is the field
  \<open>matched\<close>.
\<close>

type_synonym projection = "string option set option"

record update_result =
  updatedExisting :: bool
  matched :: int

datatype store_call =
    FindOne document projection
  | Find document projection int int "pyval option"
  | Count document
  | Insert document
  | UpdateCall document document bool bool
  | Remove document

record 's collection =
  c_find_one :: "document \<Rightarrow> projection \<Rightarrow> 's \<Rightarrow> (pyexn + document option) \<times> 's"
  c_find :: "document \<Rightarrow> projection \<Rightarrow> int \<Rightarrow> int \<Rightarrow> pyval option \<Rightarrow> 's
               \<Rightarrow> (pyexn + document list) \<times> 's"
  c_count :: "document \<Rightarrow> 's \<Rightarrow> (pyexn + int) \<times> 's"
  c_insert :: "document \<Rightarrow> 's \<Rightarrow> (pyexn + pyval) \<times> 's"
  c_update :: "document \<Rightarrow> document \<Rightarrow> bool \<Rightarrow> bool \<Rightarrow> 's \<Rightarrow> (pyexn + update_result) \<times> 's"
  c_remove :: "document \<Rightarrow> 's \<Rightarrow> (pyexn + update_result) \<times> 's"

record 's world =
  calls :: "store_call list"
  db :: 's

definition issue ::
    "store_call \<Rightarrow> ('s \<Rightarrow> (pyexn + 'r) \<times> 's) \<Rightarrow> 's world \<Rightarrow> (pyexn + 'r) \<times> 's world" where
  "issue call prim w =
     (case prim (db w) of (r, s') \<Rightarrow> (r, \<lparr>calls = calls w @ [call], db = s'\<rparr>))"

subsection \<open>Entities\<close>

record entity =
  e_data :: document
  e_expected :: projection
  e_missing :: "string list"
  e_values :: "(string \<times> pyval) list"

text \<open>
  An entity is the object that \<^verbatim>\<open>NewDocument.__init__\<close> builds: the raw data, the requested
  fields, the names found missing, and the attributes set on the object. \<^verbatim>\<open>_extract\<close> is
  \<open>extract_attribute\<close>, and \<open>extract_attributes\<close> is the loop of the constructor over the
  declared attributes.
\<close>

definition truthy_fields :: "projection \<Rightarrow> bool" where
  "truthy_fields p = (case p of None \<Rightarrow> False | Some A \<Rightarrow> A \<noteq> {})"

definition in_fields :: "string \<Rightarrow> projection \<Rightarrow> bool" where
  "in_fields name p = (case p of None \<Rightarrow> False | Some A \<Rightarrow> Some name \<in> A)"

definition extract_attribute :: "pylib \<Rightarrow> schema \<Rightarrow> entity \<Rightarrow> string \<Rightarrow> fieldtype \<Rightarrow> pyexn + entity" where
  "extract_attribute L S self name fieldtype =
     (if \<not> KeySet_contains (s_keys S) (Some name)
         \<and> truthy_fields (e_expected self) \<and> \<not> in_fields name (e_expected self)
      then Inr (self\<lparr>e_missing := e_missing self @ [name]\<rparr>)
      else (case from_mongo L (fst fieldtype) (dict_get (e_data self) (get_dbname fieldtype name)) of
              Inl e \<Rightarrow> Inl e
            | Inr v \<Rightarrow> Inr (self\<lparr>e_values := AList.update name v (e_values self)\<rparr>)))"

fun extract_attributes :: "pylib \<Rightarrow> schema \<Rightarrow> entity \<Rightarrow> attributes \<Rightarrow> pyexn + entity" where
  "extract_attributes L S self [] = Inr self"
| "extract_attributes L S self ((name, fieldtype) # rest) =
     (case extract_attribute L S self name fieldtype of
        Inl e \<Rightarrow> Inl e
      | Inr self' \<Rightarrow> extract_attributes L S self' rest)"

definition construct :: "pylib \<Rightarrow> schema \<Rightarrow> document \<Rightarrow> projection \<Rightarrow> pyexn + entity" where
  "construct L S doc flds =
     extract_attributes L S \<lparr>e_data = doc, e_expected = flds, e_missing = [], e_values = []\<rparr>
       (s_attributes S)"

subsection \<open>Operations of \<^verbatim>\<open>Storage\<close>\<close>

text \<open>
  \<^verbatim>\<open>_add_key_fields\<close> builds \<^verbatim>\<open>list(set(fields).union(names))\<close>, a list in no particular
  order: the projection is kept as the set.
\<close>

definition add_key_fields :: "schema \<Rightarrow> string list option \<Rightarrow> projection" where
  "add_key_fields S flds =
     (case flds of
        None \<Rightarrow> None
      | Some fs \<Rightarrow> if fs = [] then None else Some (Some ` set fs \<union> ks_names (s_keys S)))"

definition requested :: "string list option \<Rightarrow> projection" where
  "requested flds = (case flds of None \<Rightarrow> None | Some fs \<Rightarrow> Some (Some ` set fs))"

text \<open>\<^verbatim>\<open>str(value)\<close> of what the store returns for an insert.\<close>

fun py_str :: "pylib \<Rightarrow> pyval \<Rightarrow> pyexn + pyval" where
  "py_str L (PObjectId s) = Inr (PStr s)"
| "py_str L (PBinary s) = Inr (PStr s)"
| "py_str L v = py_unicode L v"

definition Storage_find_one ::
    "pylib \<Rightarrow> schema \<Rightarrow> 's collection \<Rightarrow> document \<Rightarrow> string list option \<Rightarrow> 's world
       \<Rightarrow> (pyexn + entity option) \<times> 's world" where
  "Storage_find_one L S C query flds w =
     (case KeySet_match (s_keys S) query True of
        Inl e \<Rightarrow> (Inl e, w)
      | Inr q \<Rightarrow>
          (case query_to_mongo L S q of
             Inl e \<Rightarrow> (Inl e, w)
           | Inr spec \<Rightarrow>
               (case issue (FindOne spec (add_key_fields S flds))
                       (c_find_one C spec (add_key_fields S flds)) w of
                  (Inl e, w') \<Rightarrow> (Inl e, w')
                | (Inr None, w') \<Rightarrow> (Inr None, w')
                | (Inr (Some doc), w') \<Rightarrow>
                    if doc = [] then (Inr None, w')
                    else (case construct L S doc (add_key_fields S flds) of
                            Inl e \<Rightarrow> (Inl e, w')
                          | Inr ent \<Rightarrow> (Inr (Some ent), w')))))"

text \<open>
  \<^verbatim>\<open>_find_as_cursor\<close> validates and translates; the cursor it returns has not reached the
  store yet.
\<close>

record cursor =
  cur_spec :: document
  cur_fields :: projection
  cur_skip :: int
  cur_limit :: int

definition find_as_cursor ::
    "pylib \<Rightarrow> schema \<Rightarrow> document \<Rightarrow> string list option \<Rightarrow> int \<Rightarrow> int \<Rightarrow> bool
       \<Rightarrow> pyexn + cursor" where
  "find_as_cursor L S query flds skip limit require_index =
     (case (if require_index then KeySet_match (s_keys S) query False else Inr query) of
        Inl e \<Rightarrow> Inl e
      | Inr q \<Rightarrow>
          (case query_to_mongo L S query of
             Inl e \<Rightarrow> Inl e
           | Inr spec \<Rightarrow>
               Inr \<lparr>cur_spec = spec, cur_fields = add_key_fields S flds,
                    cur_skip = skip, cur_limit = limit\<rparr>))"

definition Storage_find ::
    "pylib \<Rightarrow> schema \<Rightarrow> 's collection \<Rightarrow> document \<Rightarrow> string list option \<Rightarrow> int \<Rightarrow> int
       \<Rightarrow> pyval \<Rightarrow> bool \<Rightarrow> 's world \<Rightarrow> (pyexn + entity list) \<times> 's world" where
  "Storage_find L S C query flds skip limit sort_by require_index w =
     (case find_as_cursor L S query flds skip limit require_index of
        Inl e \<Rightarrow> (Inl e, w)
      | Inr cur \<Rightarrow>
          (let order = (if truthy sort_by then Some sort_by else None) in
           case issue (Find (cur_spec cur) (cur_fields cur) (cur_skip cur) (cur_limit cur) order)
                  (c_find C (cur_spec cur) (cur_fields cur) (cur_skip cur) (cur_limit cur) order)
                  w of
             (Inl e, w') \<Rightarrow> (Inl e, w')
           | (Inr docs, w') \<Rightarrow>
               (case try_map (\<lambda>doc. construct L S doc (requested flds)) docs of
                  Inl e \<Rightarrow> (Inl e, w')
                | Inr ents \<Rightarrow> (Inr ents, w'))))"

definition Storage_exists ::
    "pylib \<Rightarrow> schema \<Rightarrow> 's collection \<Rightarrow> document \<Rightarrow> 's world \<Rightarrow> (pyexn + bool) \<times> 's world" where
  "Storage_exists L S C query w =
     (case find_as_cursor L S query None 0 1 True of
        Inl e \<Rightarrow> (Inl e, w)
      | Inr cur \<Rightarrow>
          (case issue (Count (cur_spec cur)) (c_count C (cur_spec cur)) w of
             (Inl e, w') \<Rightarrow> (Inl e, w')
           | (Inr k, w') \<Rightarrow> (Inr (k \<noteq> 0), w')))"

definition Storage_count ::
    "pylib \<Rightarrow> schema \<Rightarrow> 's collection \<Rightarrow> document \<Rightarrow> bool \<Rightarrow> 's world
       \<Rightarrow> (pyexn + int) \<times> 's world" where
  "Storage_count L S C query require_index w =
     (case find_as_cursor L S query None 0 0 require_index of
        Inl e \<Rightarrow> (Inl e, w)
      | Inr cur \<Rightarrow> issue (Count (cur_spec cur)) (c_count C (cur_spec cur)) w)"

text \<open>
  \<^verbatim>\<open>_insert\<close>: the loop over the keys of the key set calls \<^verbatim>\<open>key.match\<close> itself, with no
  handler around it.
\<close>

fun insert_checks :: "Index list \<Rightarrow> document \<Rightarrow> pyexn + unit" where
  "insert_checks [] doc = Inr ()"
| "insert_checks (key # rest) doc =
     (if head key \<noteq> Some ''id''
      then (case key_match key doc True of
              Inl e \<Rightarrow> Inl e
            | Inr q \<Rightarrow> insert_checks rest doc)
      else insert_checks rest doc)"

definition Storage_insert ::
    "pylib \<Rightarrow> schema \<Rightarrow> 's collection \<Rightarrow> document \<Rightarrow> 's world \<Rightarrow> (pyexn + pyval) \<times> 's world" where
  "Storage_insert L S C doc w =
     (case insert_checks (KeySet_iter (s_keys S)) doc of
        Inl e \<Rightarrow> (Inl e, w)
      | Inr u \<Rightarrow>
          (case document_to_mongo L S doc of
             Inl e \<Rightarrow> (Inl e, w)
           | Inr mdoc \<Rightarrow>
               (case issue (Insert mdoc) (c_insert C mdoc) w of
                  (Inl e, w') \<Rightarrow> (Inl e, w')
                | (Inr object_id, w') \<Rightarrow> (py_str L object_id, w'))))"

definition Storage_update ::
    "pylib \<Rightarrow> schema \<Rightarrow> 's collection \<Rightarrow> document \<Rightarrow> document \<Rightarrow> bool \<Rightarrow> 's world
       \<Rightarrow> (pyexn + int) \<times> 's world" where
  "Storage_update L S C query doc multi w =
     (case KeySet_match (s_keys S) query (\<not> multi) of
        Inl e \<Rightarrow> (Inl e, w)
      | Inr q \<Rightarrow>
          (case query_to_mongo L S q of
             Inl e \<Rightarrow> (Inl e, w)
           | Inr spec \<Rightarrow>
               (case update_to_mongo L S doc of
                  Inl e \<Rightarrow> (Inl e, w)
                | Inr upd \<Rightarrow>
                    (case issue (UpdateCall spec upd multi False)
                            (c_update C spec upd multi False) w of
                       (Inl e, w') \<Rightarrow> (Inl e, w')
                     | (Inr result, w') \<Rightarrow>
                         if \<not> multi \<and> \<not> updatedExisting result
                         then (Inl (DocumentNotFoundError spec), w')
                         else (Inr (matched result), w')))))"

definition Storage_upsert ::
    "pylib \<Rightarrow> schema \<Rightarrow> 's collection \<Rightarrow> document \<Rightarrow> document \<Rightarrow> 's world
       \<Rightarrow> (pyexn + bool) \<times> 's world" where
  "Storage_upsert L S C query doc w =
     (case KeySet_match (s_keys S) query True of
        Inl e \<Rightarrow> (Inl e, w)
      | Inr q \<Rightarrow>
          (case query_to_mongo L S q of
             Inl e \<Rightarrow> (Inl e, w)
           | Inr spec \<Rightarrow>
               (case update_to_mongo L S doc of
                  Inl e \<Rightarrow> (Inl e, w)
                | Inr upd \<Rightarrow>
                    (case issue (UpdateCall spec upd False True)
                            (c_update C spec upd False True) w of
                       (Inl e, w') \<Rightarrow> (Inl e, w')
                     | (Inr result, w') \<Rightarrow> (Inr (updatedExisting result), w')))))"

definition Storage_remove ::
    "pylib \<Rightarrow> schema \<Rightarrow> 's collection \<Rightarrow> document \<Rightarrow> 's world \<Rightarrow> (pyexn + int) \<times> 's world" where
  "Storage_remove L S C query w =
     (case KeySet_match (s_keys S) query False of
        Inl e \<Rightarrow> (Inl e, w)
      | Inr q \<Rightarrow>
          (case query_to_mongo L S q of
             Inl e \<Rightarrow> (Inl e, w)
           | Inr spec \<Rightarrow>
               (case issue (Remove spec) (c_remove C spec) w of
                  (Inl e, w') \<Rightarrow> (Inl e, w')
                | (Inr result, w') \<Rightarrow> (Inr (matched result), w'))))"

subsection \<open>A runtime, a schema and a store for the examples\<close>

text \<open>
  An instance of the runtime parameters, restricted to what the examples need: numerals
  are plain decimal digits with an optional minus sign, integers up to \<open>2^53\<close> convert to
  doubles exactly, only booleans, integers and ASCII bytes convert to text, an absolute
  URL is \<^verbatim>\<open>scheme://netloc/...\<close>, and an object id is a string of 24 characters.
\<close>

definition read_digits :: "string \<Rightarrow> nat option" where
  "read_digits s =
     (if s \<noteq> [] \<and> list_all (\<lambda>c. 48 \<le> (of_char c :: nat) \<and> (of_char c :: nat) \<le> 57) s
      then Some (foldl (\<lambda>a c. 10 * a + (of_char c - 48)) 0 s)
      else None)"

definition read_int :: "string \<Rightarrow> int option" where
  "read_int s =
     (case s of
        [] \<Rightarrow> None
      | c # r \<Rightarrow>
          if c = CHR ''-'' then map_option (\<lambda>k. - int k) (read_digits r)
          else map_option int (read_digits s))"

fun show_nat :: "nat \<Rightarrow> string" where
  "show_nat k =
     (if k < 10 then [char_of (48 + k)]
      else show_nat (k div 10) @ [char_of (48 + k mod 10)])"

definition show_int :: "int \<Rightarrow> string" where
  "show_int i = (if i < 0 then CHR ''-'' # show_nat (nat (- i)) else show_nat (nat i))"

definition example_lib :: pylib where
  "example_lib =
     \<lparr>int_of_text = read_int,
      float_of_text = (\<lambda>s. map_option (\<lambda>i. Finite (of_int i)) (read_int s)),
      float_of_int = (\<lambda>i. if \<bar>i\<bar> \<le> 2 ^ 53 then Some (Finite (of_int i)) else None),
      text_of = (\<lambda>v. case v of
                   PBool b \<Rightarrow> Some (if b then ''True'' else ''False'')
                 | PInt i \<Rightarrow> Some (show_int i)
                 | PBinary s \<Rightarrow> if list_all (\<lambda>c. (of_char c :: nat) < 128) s then Some s else None
                 | _ \<Rightarrow> None),
      url_parts = (\<lambda>s. let scheme = takeWhile (\<lambda>c. c \<noteq> CHR '':'') s;
                           rest = drop (length scheme) s
                       in if take 3 rest = ''://''
                          then (scheme, takeWhile (\<lambda>c. c \<noteq> CHR ''/'') (drop 3 rest))
                          else ([], [])),
      oid_of_text = (\<lambda>s. if length s = 24 then Some s else None)\<rparr>"

text \<open>
  A document class with a unique key on \<^verbatim>\<open>name\<close>, a non-unique index on \<^verbatim>\<open>tags\<close>, and three
  attributes besides the identifier.
\<close>

definition example_schema :: schema where
  "example_schema =
     \<lparr>s_keys = KeySet_init [\<lparr>index = [(Some ''name'', ASCENDING)], unique = True\<rparr>,
                            \<lparr>index = [(Some ''tags'', ASCENDING)], unique = False\<rparr>],
      s_attributes = Attributes_init
        [(''name'', (StringField (PStr []), None)),
         (''tags'', (ListField (StringField (PStr [])), None)),
         (''age'', (IntField (PInt 0), Some ''a''))]\<rparr>"

text \<open>An empty collection whose state counts the requests it has received.\<close>

definition empty_collection :: "nat collection" where
  "empty_collection =
     \<lparr>c_find_one = (\<lambda>spec flds s. (Inr None, Suc s)),
      c_find = (\<lambda>spec flds skip limit order s. (Inr [], Suc s)),
      c_count = (\<lambda>spec s. (Inr 0, Suc s)),
      c_insert = (\<lambda>doc s. (Inr (PObjectId ''4cdfb11e1f3c000000007822''), Suc s)),
      c_update = (\<lambda>spec upd multi upsert s.
                    (Inr \<lparr>updatedExisting = False, matched = 0\<rparr>, Suc s)),
      c_remove = (\<lambda>spec s. (Inr \<lparr>updatedExisting = False, matched = 0\<rparr>, Suc s))\<rparr>"

section \<open>Properties of the key set\<close>

subsection \<open>Association lists of lists\<close>

lemma keys_get_Nil: "keys_get \<lparr>ks_keys = [], ks_names = N\<rparr> h = []"
  by (simp add: keys_get_def)

lemma set_concat_update:
  "set (concat (map snd (AList.update h ((case map_of al h of None \<Rightarrow> [] | Some l \<Rightarrow> l) @ [k]) al))) =
     insert k (set (concat (map snd al)))"
proof (induction al)
  case Nil
  show ?case by simp
next
  case (Cons p al)
  obtain a b where p: "p = (a, b)" by (cases p)
  show ?case
  proof (cases "a = h")
    case True
    then show ?thesis by (simp add: p Un_commute insert_commute del: set_concat)
  next
    case False
    then show ?thesis using Cons.IH by (simp add: p del: set_concat)
  qed
qed

lemma distinct_map_append_single:
  "distinct (map f (xs @ [k] @ ys)) \<longleftrightarrow>
     distinct (map f (xs @ ys)) \<and> f k \<notin> f ` (set xs \<union> set ys)"
  by (auto simp: image_Un)

lemma distinct_concat_update:
  "distinct (map f (concat (map snd (AList.update h ((case map_of al h of None \<Rightarrow> [] | Some l \<Rightarrow> l) @ [k]) al)))) \<longleftrightarrow>
     distinct (map f (concat (map snd al))) \<and> f k \<notin> f ` set (concat (map snd al))"
proof (induction al)
  case Nil
  show ?case by simp
next
  case (Cons p al)
  obtain a b where p: "p = (a, b)" by (cases p)
  let ?g = "\<lambda>al. case map_of al h of None \<Rightarrow> [] | Some l \<Rightarrow> l"
  show ?case
  proof (cases "a = h")
    case True
    have e1: "concat (map snd (AList.update h (?g (p # al) @ [k]) (p # al)))
            = b @ [k] @ concat (map snd al)"
      using True by (simp add: p)
    have e2: "concat (map snd (p # al)) = b @ concat (map snd al)" by (simp add: p)
    show ?thesis
      unfolding e1 e2 set_append by (rule distinct_map_append_single)
  next
    case False
    let ?u = "concat (map snd (AList.update h (?g al @ [k]) al))"
    let ?c = "concat (map snd al)"
    have e1: "concat (map snd (AList.update h (?g (p # al) @ [k]) (p # al))) = b @ ?u"
      using False by (simp add: p)
    have e2: "concat (map snd (p # al)) = b @ ?c" by (simp add: p)
    have s: "set ?u = insert k (set ?c)" by (rule set_concat_update)
    have ih: "distinct (map f ?u) \<longleftrightarrow> distinct (map f ?c) \<and> f k \<notin> f ` set ?c"
      by (rule Cons.IH)
    have "distinct (map f (b @ ?u)) \<longleftrightarrow>
            distinct (map f b) \<and> distinct (map f ?u) \<and> f ` set b \<inter> f ` set ?u = {}"
      by simp
    also have "\<dots> \<longleftrightarrow> distinct (map f b) \<and> (distinct (map f ?c) \<and> f k \<notin> f ` set ?c)
                  \<and> f ` set b \<inter> f ` insert k (set ?c) = {}"
      unfolding ih s ..
    also have "\<dots> \<longleftrightarrow> distinct (map f (b @ ?c)) \<and> f k \<notin> f ` set (b @ ?c)"
      by auto
    finally show ?thesis unfolding e1 e2 .
  qed
qed

subsection \<open>Adding keys\<close>

lemma Index_eq_head: "Index_eq a b \<Longrightarrow> head a = head b"
  by (simp add: Index_eq_def head_def names_def)

lemma filed_get:
  assumes "KeySet_filed ks"
  shows "k \<in> set (keys_get ks h) \<longleftrightarrow> k \<in> set (KeySet_iter ks) \<and> head k = h"
proof
  assume a: "k \<in> set (keys_get ks h)"
  then obtain l where l: "map_of (ks_keys ks) h = Some l" "k \<in> set l"
    by (cases "map_of (ks_keys ks) h") (auto simp: keys_get_def)
  then have m: "(h, l) \<in> set (ks_keys ks)" by (simp add: map_of_SomeD)
  with l assms show "k \<in> set (KeySet_iter ks) \<and> head k = h"
    by (force simp: KeySet_iter_def KeySet_filed_def)
next
  assume a: "k \<in> set (KeySet_iter ks) \<and> head k = h"
  then obtain h' l where m: "(h', l) \<in> set (ks_keys ks)" "k \<in> set l"
    by (auto simp: KeySet_iter_def)
  with assms a have "h' = h" by (auto simp: KeySet_filed_def)
  with m assms have "map_of (ks_keys ks) h = Some l" by (simp add: KeySet_filed_def)
  with m show "k \<in> set (keys_get ks h)" by (simp add: keys_get_def)
qed

lemma key_in_iter:
  assumes "KeySet_filed ks"
  shows "key_in k (keys_get ks (head k)) \<longleftrightarrow> key_in k (KeySet_iter ks)"
  using filed_get [OF assms] Index_eq_head [of k]
  by (auto simp: key_in_def list_ex_iff)

lemma iter_add:
  "set (KeySet_iter (KeySet_add ks k)) =
     (if key_in k (keys_get ks (head k)) then set (KeySet_iter ks)
      else insert k (set (KeySet_iter ks)))"
  by (simp add: KeySet_add_def KeySet_iter_def keys_get_def set_concat_update del: set_concat)

lemma filed_add:
  assumes "KeySet_filed ks"
  shows "KeySet_filed (KeySet_add ks k)"
proof (cases "key_in k (keys_get ks (head k))")
  case True
  with assms show ?thesis by (simp add: KeySet_add_def)
next
  case False
  let ?al = "AList.update (head k) (keys_get ks (head k) @ [k]) (ks_keys ks)"
  have d: "distinct (map fst ?al)"
    using assms by (simp add: KeySet_filed_def distinct_update)
  have "\<forall>(h, l) \<in> set ?al. \<forall>k' \<in> set l. head k' = h"
  proof (clarify)
    fix h l k'
    assume m: "(h, l) \<in> set ?al" and k': "k' \<in> set l"
    from m d have mo: "map_of ?al h = Some l" by simp
    show "head k' = h"
    proof (cases "h = head k")
      case True
      with mo have "l = keys_get ks (head k) @ [k]" by (simp add: update_conv')
      with k' True filed_get [OF assms, of k' "head k"] show ?thesis by auto
    next
      case False
      with mo have "map_of (ks_keys ks) h = Some l" by (simp add: update_conv')
      then have "keys_get ks h = l" by (simp add: keys_get_def)
      with k' filed_get [OF assms, of k' h] show ?thesis by auto
    qed
  qed
  with d False show ?thesis by (simp add: KeySet_add_def KeySet_filed_def)
qed

lemma distinct_add:
  assumes "KeySet_filed ks" "distinct (map index (KeySet_iter ks))"
  shows "distinct (map index (KeySet_iter (KeySet_add ks k)))"
proof (cases "key_in k (keys_get ks (head k))")
  case True
  with assms show ?thesis by (simp add: KeySet_add_def)
next
  case False
  then have "\<not> key_in k (KeySet_iter ks)" using key_in_iter [OF assms(1)] by simp
  then have "index k \<notin> index ` set (KeySet_iter ks)"
    by (auto simp: key_in_def list_ex_iff Index_eq_def)
  with False assms(2) show ?thesis
    by (simp add: KeySet_add_def KeySet_iter_def keys_get_def distinct_concat_update
             del: set_concat map_concat)
qed


lemma filed_empty: "KeySet_filed \<lparr>ks_keys = [], ks_names = {}\<rparr>"
  by (simp add: KeySet_filed_def)

lemma filed_update: "KeySet_filed ks \<Longrightarrow> KeySet_filed (KeySet_update ks l)"
  unfolding KeySet_update_def
  by (induction l arbitrary: ks) (simp_all add: filed_add)




lemma iter_add_upper: "set (KeySet_iter (KeySet_add ks k)) \<subseteq> insert k (set (KeySet_iter ks))"
  by (auto simp: iter_add)


lemma iter_update_upper:
  "set (KeySet_iter (KeySet_update ks l)) \<subseteq> set (KeySet_iter ks) \<union> set l"
  unfolding KeySet_update_def
proof (induction l arbitrary: ks)
  case Nil
  show ?case by simp
next
  case (Cons k l)
  have "set (KeySet_iter (fold (\<lambda>key s. KeySet_add s key) l (KeySet_add ks k)))
          \<subseteq> set (KeySet_iter (KeySet_add ks k)) \<union> set l"
    by (rule Cons.IH)
  also have "\<dots> \<subseteq> insert k (set (KeySet_iter ks)) \<union> set l"
    using iter_add_upper [of ks k] by blast
  finally show ?case by auto
qed


lemma distinct_update:
  "KeySet_filed ks \<Longrightarrow> distinct (map index (KeySet_iter ks)) \<Longrightarrow>
     distinct (map index (KeySet_iter (KeySet_update ks l)))"
  unfolding KeySet_update_def
  by (induction l arbitrary: ks) (simp_all add: filed_add distinct_add)








lemma valid_Key_id: "valid_index Key_id"
  by (simp add: valid_index_def Key_id_def)

lemma inv_add: "KeySet_inv ks \<Longrightarrow> valid_index k \<Longrightarrow> KeySet_inv (KeySet_add ks k)"
  using iter_add_upper [of ks k] by (auto simp: KeySet_inv_def filed_add list_all_iff)

lemma inv_update:
  "KeySet_inv ks \<Longrightarrow> list_all valid_index l \<Longrightarrow> KeySet_inv (KeySet_update ks l)"
  using iter_update_upper [of ks l] by (auto simp: KeySet_inv_def filed_update list_all_iff)

lemma inv_init: "list_all valid_index args \<Longrightarrow> KeySet_inv (KeySet_init args)"
proof -
  assume a: "list_all valid_index args"
  have "KeySet_inv \<lparr>ks_keys = [], ks_names = {}\<rparr>"
    by (simp add: KeySet_inv_def filed_empty KeySet_iter_def)
  with a show ?thesis by (simp add: KeySet_init_def inv_add inv_update valid_Key_id)
qed

lemma inv_schema:
  "list_all valid_index own \<Longrightarrow> list_all KeySet_inv bases \<Longrightarrow>
     KeySet_inv (schema_keys own bases)"
  unfolding schema_keys_def
proof (induction bases rule: rev_induct)
  case Nil
  then show ?case by (simp add: inv_init)
next
  case (snoc b bases)
  let ?ks = "fold (\<lambda>base ks. KeySet_update ks (KeySet_iter base)) bases (KeySet_init own)"
  have "KeySet_inv ?ks" using snoc by simp
  moreover have "list_all valid_index (KeySet_iter b)" using snoc.prems by (simp add: KeySet_inv_def)
  ultimately have "KeySet_inv (KeySet_update ?ks (KeySet_iter b))" by (rule inv_update)
  then show ?case by simp
qed

lemma key_match_cases: "key_match k q u = Inr q \<or> key_match k q u = Inl AssertionError"
  by (simp add: key_match_def Key_match_def Index_match_def)

lemma match_keys_Some:
  "match_keys l q u = Some r \<longleftrightarrow> r = q \<and> (\<exists>k \<in> set l. key_match k q u = Inr q)"
proof (induction l)
  case Nil
  show ?case by simp
next
  case (Cons k l)
  from key_match_cases [of k q u] show ?case
    using Cons.IH by (auto split: sum.splits)
qed

lemma match_heads_Some:
  "match_heads ks hs q u = Some r \<longleftrightarrow>
     r = q \<and> (\<exists>h \<in> set hs. \<exists>k \<in> set (keys_get ks (Some h)). key_match k q u = Inr q)"
proof (induction hs)
  case Nil
  show ?case by simp
next
  case (Cons h hs)
  show ?case
  proof (cases "match_keys (keys_get ks (Some h)) q u")
    case None
    then have "\<not> (\<exists>k \<in> set (keys_get ks (Some h)). key_match k q u = Inr q)"
      using match_keys_Some [of "keys_get ks (Some h)" q u q] by simp
    with None Cons.IH show ?thesis by auto
  next
    case (Some r')
    then show ?thesis using match_keys_Some [of "keys_get ks (Some h)" q u r'] by auto
  qed
qed

lemma has_key_names: "has_key q n \<longleftrightarrow> n \<in> query_names q"
  by (cases n) (auto simp: has_key_def query_names_def)

lemma head_in_names: "valid_index k \<Longrightarrow> head k \<in> set (names k)"
  by (cases "index k") (simp_all add: head_def names_def valid_index_def)

lemma key_match_head:
  assumes "valid_index k" "head k \<in> query_names q"
  shows "key_match k q u = Inr q \<longleftrightarrow> (unique k \<and> u \<longrightarrow> set (names k) \<subseteq> query_names q)"
  using assms
  by (auto simp: key_match_def Key_match_def Index_match_def has_key_names list_all_iff)

lemma KeySet_match_Inr:
  assumes "KeySet_inv ks"
  shows "KeySet_match ks q u = Inr r \<longleftrightarrow>
           r = q \<and> (\<exists>k \<in> set (KeySet_iter ks).
                      head k \<in> query_names q \<and> (unique k \<and> u \<longrightarrow> set (names k) \<subseteq> query_names q))"
proof -
  have f: "KeySet_filed ks" and v: "\<And>k. k \<in> set (KeySet_iter ks) \<Longrightarrow> valid_index k"
    using assms by (auto simp: KeySet_inv_def list_all_iff)
  have "KeySet_match ks q u = Inr r \<longleftrightarrow> match_heads ks (map fst q) q u = Some r"
    by (simp add: KeySet_match_def split: option.splits)
  also have "\<dots> \<longleftrightarrow> r = q \<and> (\<exists>h \<in> set (map fst q). \<exists>k \<in> set (keys_get ks (Some h)).
                                  key_match k q u = Inr q)"
    by (rule match_heads_Some)
  also have "\<dots> \<longleftrightarrow> r = q \<and> (\<exists>k \<in> set (KeySet_iter ks). head k \<in> query_names q \<and> key_match k q u = Inr q)"
    using filed_get [OF f] by (auto simp: query_names_def)
  also have "\<dots> \<longleftrightarrow> r = q \<and> (\<exists>k \<in> set (KeySet_iter ks).
                      head k \<in> query_names q \<and> (unique k \<and> u \<longrightarrow> set (names k) \<subseteq> query_names q))"
    using key_match_head v by blast
  finally show ?thesis .
qed

lemma KeySet_match_cases:
  "KeySet_match ks q u = Inr q \<or> KeySet_match ks q u = Inl (KeyMatchError q)"
  using match_heads_Some [of ks "map fst q" q u]
  by (cases "match_heads ks (map fst q) q u") (auto simp: KeySet_match_def)

text \<open>
  Claim C1, as the code has it. On a well-formed key set, \<^verbatim>\<open>match(query, unique=True)\<close>
  returns the query exactly when some declared entry is satisfied: a unique \<^verbatim>\<open>Key\<close> all of
  whose field names are top-level names of the query, or a non-unique \<^verbatim>\<open>Index\<close> whose head
  is one (\<^verbatim>\<open>Index.match\<close> never checks coverage). \<^verbatim>\<open>match(query, unique=False)\<close> returns
  the query exactly when the head of some declared entry is a top-level name of the query.
  In every other case \<^verbatim>\<open>KeyMatchError(query)\<close> is raised.
\<close>

theorem KeySet_match_coverage:
  assumes "KeySet_inv ks"
  shows "(KeySet_match ks query True = Inr query \<longleftrightarrow>
            (\<exists>k \<in> set (KeySet_iter ks).
               if unique k then set (names k) \<subseteq> query_names query else head k \<in> query_names query))
       \<and> (KeySet_match ks query False = Inr query \<longleftrightarrow>
            (\<exists>k \<in> set (KeySet_iter ks). head k \<in> query_names query))
       \<and> (KeySet_match ks query uniq = Inr query \<or>
            KeySet_match ks query uniq = Inl (KeyMatchError query))"
proof -
  have v: "\<And>k. k \<in> set (KeySet_iter ks) \<Longrightarrow> head k \<in> set (names k)"
    using assms by (auto simp: KeySet_inv_def list_all_iff head_in_names)
  have "KeySet_match ks query True = Inr query \<longleftrightarrow>
          (\<exists>k \<in> set (KeySet_iter ks).
             if unique k then set (names k) \<subseteq> query_names query else head k \<in> query_names query)"
    unfolding KeySet_match_Inr [OF assms] using v by (auto split: if_splits)
  moreover have "KeySet_match ks query False = Inr query \<longleftrightarrow>
          (\<exists>k \<in> set (KeySet_iter ks). head k \<in> query_names query)"
    unfolding KeySet_match_Inr [OF assms] by simp
  ultimately show ?thesis using KeySet_match_cases [of ks query uniq] by blast
qed

lemmas keyset_eval =
  KeySet_init_def KeySet_update_def KeySet_add_def keys_get_def key_in_def Index_eq_def
  head_def names_def Key_id_def ASCENDING_def KeySet_iter_def KeySet_match_def key_match_def
  Key_match_def Index_match_def has_key_def query_names_def

theorem KeySet_match_coverage_witness:
  "KeySet_inv (KeySet_init [\<lparr>index = [(Some ''a'', 1), (Some ''b'', 1)], unique = True\<rparr>,
                            \<lparr>index = [(Some ''c'', 1), (Some ''d'', 1)], unique = False\<rparr>])
   \<and> KeySet_match (KeySet_init [\<lparr>index = [(Some ''a'', 1), (Some ''b'', 1)], unique = True\<rparr>,
                                 \<lparr>index = [(Some ''c'', 1), (Some ''d'', 1)], unique = False\<rparr>])
        [(''b'', PInt 2), (''a'', PInt 1)] True = Inr [(''b'', PInt 2), (''a'', PInt 1)]
   \<and> KeySet_match (KeySet_init [\<lparr>index = [(Some ''a'', 1), (Some ''b'', 1)], unique = True\<rparr>,
                                 \<lparr>index = [(Some ''c'', 1), (Some ''d'', 1)], unique = False\<rparr>])
        [(''b'', PInt 2), (''a'', PInt 1)] False = Inr [(''b'', PInt 2), (''a'', PInt 1)]"
proof -
  let ?ks = "KeySet_init [\<lparr>index = [(Some ''a'', 1), (Some ''b'', 1)], unique = True\<rparr>,
                          \<lparr>index = [(Some ''c'', 1), (Some ''d'', 1)], unique = False\<rparr>]"
  have inv: "KeySet_inv ?ks" by (rule inv_init) (simp add: valid_index_def)
  have it: "KeySet_iter ?ks = [\<lparr>index = [(Some ''a'', 1), (Some ''b'', 1)], unique = True\<rparr>,
                          \<lparr>index = [(Some ''c'', 1), (Some ''d'', 1)], unique = False\<rparr>, Key_id]"
    by (simp add: keyset_eval)
  from KeySet_match_coverage [OF inv, of "[(''b'', PInt 2), (''a'', PInt 1)]" True]
  have "KeySet_match ?ks [(''b'', PInt 2), (''a'', PInt 1)] True = Inr [(''b'', PInt 2), (''a'', PInt 1)]"
    and "KeySet_match ?ks [(''b'', PInt 2), (''a'', PInt 1)] False = Inr [(''b'', PInt 2), (''a'', PInt 1)]"
    by (simp_all add: it names_def query_names_def head_def Key_id_def)
  with inv show ?thesis by simp
qed

text \<open>
  With the non-unique \<^verbatim>\<open>Index('a', 'b')\<close> declared, the query \<^verbatim>\<open>{'a': 1}\<close> passes the unique
  match although it covers the field set of no declared entry.
\<close>

theorem KeySet_match_index_counterexample:
  "KeySet_match (KeySet_init [\<lparr>index = [(Some ''a'', 1), (Some ''b'', 1)], unique = False\<rparr>])
        [(''a'', PInt 1)] True = Inr [(''a'', PInt 1)]
   \<and> KeySet_iter (KeySet_init [\<lparr>index = [(Some ''a'', 1), (Some ''b'', 1)], unique = False\<rparr>])
       = [\<lparr>index = [(Some ''a'', 1), (Some ''b'', 1)], unique = False\<rparr>, Key_id]
   \<and> \<not> set (names \<lparr>index = [(Some ''a'', 1), (Some ''b'', 1)], unique = False\<rparr>)
          \<subseteq> query_names [(''a'', PInt 1)]
   \<and> \<not> set (names Key_id) \<subseteq> query_names [(''a'', PInt 1)]"
  by (simp add: keyset_eval)

section \<open>Claims about the key set\<close>





section \<open>Claims about validation in the mapper\<close>


text \<open>
  Claim C10, as the code has it. On the empty query \<^verbatim>\<open>match\<close> raises \<^verbatim>\<open>KeyMatchError\<close> for
  every key set and either value of the flag, and so does every operation that validates
  its query against the key set (\<^verbatim>\<open>_find_one\<close>, \<^verbatim>\<open>_find\<close>, \<^verbatim>\<open>_exists\<close> and \<^verbatim>\<open>_count\<close> with the
  index required, \<^verbatim>\<open>_update\<close>, \<^verbatim>\<open>_upsert\<close>, \<^verbatim>\<open>_remove\<close>), before it issues any request: the
  record of requests and the state of the store are those it started from. Nothing more
  follows for queries that are not empty: validation looks at the names of a query, never
  at its values, so it does not keep a query from selecting every document.
\<close>

theorem empty_query_rejected:
  "KeySet_match ks [] uniq = Inl (KeyMatchError [])
   \<and> Storage_find_one L S C [] flds w = (Inl (KeyMatchError []), w)
   \<and> Storage_find L S C [] flds skip limit sort_by True w = (Inl (KeyMatchError []), w)
   \<and> Storage_exists L S C [] w = (Inl (KeyMatchError []), w)
   \<and> Storage_count L S C [] True w = (Inl (KeyMatchError []), w)
   \<and> Storage_update L S C [] doc multi w = (Inl (KeyMatchError []), w)
   \<and> Storage_upsert L S C [] doc w = (Inl (KeyMatchError []), w)
   \<and> Storage_remove L S C [] w = (Inl (KeyMatchError []), w)"
proof -
  have m: "\<And>ks u. KeySet_match ks [] u = Inl (KeyMatchError [])"
    by (simp add: KeySet_match_def)
  have c: "\<And>k l. find_as_cursor L S [] flds k l True = Inl (KeyMatchError [])"
    "\<And>k l. find_as_cursor L S [] None k l True = Inl (KeyMatchError [])"
    by (simp_all add: find_as_cursor_def m)
  show ?thesis
    by (simp add: m c Storage_find_one_def Storage_find_def Storage_exists_def
        Storage_count_def Storage_update_def Storage_upsert_def Storage_remove_def)
qed

theorem empty_query_rejected_witness:
  "Storage_remove example_lib example_schema empty_collection [] \<lparr>calls = [], db = 0\<rparr>
     = (Inl (KeyMatchError []), \<lparr>calls = [], db = 0\<rparr>)
   \<and> Storage_update example_lib example_schema empty_collection [] [(''age'', PInt 3)] True
        \<lparr>calls = [], db = 0\<rparr>
     = (Inl (KeyMatchError []), \<lparr>calls = [], db = 0\<rparr>)"
  using empty_query_rejected [of "s_keys example_schema" True example_lib example_schema
      empty_collection None "\<lparr>calls = [], db = 0\<rparr>" 0 0 PNone "[(''age'', PInt 3)]" True]
  by simp

text \<open>
  A validated way to address all documents at once. The query \<^verbatim>\<open>{'id': {'$ne': None}}\<close>
  names the identifier, whose key every key set holds, so \<^verbatim>\<open>match\<close> accepts it with either
  value of the flag; it is translated to \<^verbatim>\<open>{'_id': {'$ne': None}}\<close>, a filter that no stored
  document fails, and \<^verbatim>\<open>_remove\<close> and \<^verbatim>\<open>_update\<close> with \<^verbatim>\<open>multi=True\<close> hand it to the store.
\<close>

theorem identifier_query_counterexample:
  "KeySet_match (s_keys example_schema) [(''id'', PDict [(''$ne'', PNone)])] True
     = Inr [(''id'', PDict [(''$ne'', PNone)])]
   \<and> KeySet_match (s_keys example_schema) [(''id'', PDict [(''$ne'', PNone)])] False
     = Inr [(''id'', PDict [(''$ne'', PNone)])]
   \<and> query_to_mongo example_lib example_schema [(''id'', PDict [(''$ne'', PNone)])]
     = Inr [(''_id'', PDict [(''$ne'', PNone)])]
   \<and> Storage_remove example_lib example_schema empty_collection
         [(''id'', PDict [(''$ne'', PNone)])] \<lparr>calls = [], db = 0\<rparr>
     = (Inr 0, \<lparr>calls = [Remove [(''_id'', PDict [(''$ne'', PNone)])]], db = 1\<rparr>)
   \<and> Storage_update example_lib example_schema empty_collection
         [(''id'', PDict [(''$ne'', PNone)])] [(''age'', PInt 3)] True \<lparr>calls = [], db = 0\<rparr>
     = (Inr 0, \<lparr>calls = [UpdateCall [(''_id'', PDict [(''$ne'', PNone)])] [(''a'', PInt 3)]
                               True False], db = 1\<rparr>)"
proof -
  let ?q = "[(''id'', PDict [(''$ne'', PNone)])]"
  let ?spec = "[(''_id'', PDict [(''$ne'', PNone)])]"
  have m: "KeySet_match (s_keys example_schema) ?q True = Inr ?q"
    "KeySet_match (s_keys example_schema) ?q False = Inr ?q"
    by (simp_all add: example_schema_def keyset_eval)
  have gf: "get_fieldtype example_schema ''id'' = Inr (ObjectIdField, Some ''_id'')"
    by (simp add: get_fieldtype_def Attributes_get_fieldtype_def example_schema_def
          Attributes_init_def dbname_def)
  have enc: "to_mongo example_lib ObjectIdField PNone ''AUTO'' = Inr PNone"
    by (simp add: Field_to_mongo_def ObjectIdField_do_to_mongo_def)
  have q: "query_to_mongo example_lib example_schema ?q = Inr ?spec"
    by (simp add: query_to_mongo_def query_helper_def startswith_def gf enc get_dbname_def
          del: to_mongo.simps)
  have ga: "get_fieldtype example_schema ''age'' = Inr (IntField (PInt 0), Some ''a'')"
    by (simp add: get_fieldtype_def Attributes_get_fieldtype_def example_schema_def
          Attributes_init_def dbname_def)
  have ea: "to_mongo example_lib (IntField (PInt 0)) (PInt 3) ''AUTO'' = Inr (PInt 3)"
    by (simp add: Field_to_mongo_def IntField_do_to_mongo_def)
  have u: "update_to_mongo example_lib example_schema [(''age'', PInt 3)] = Inr [(''a'', PInt 3)]"
    by (simp add: update_to_mongo_def startswith_def ga ea get_dbname_def del: to_mongo.simps)
  have r: "Storage_remove example_lib example_schema empty_collection ?q \<lparr>calls = [], db = 0\<rparr>
     = (Inr 0, \<lparr>calls = [Remove ?spec], db = 1\<rparr>)"
    by (simp add: Storage_remove_def m q issue_def empty_collection_def)
  have p: "Storage_update example_lib example_schema empty_collection ?q [(''age'', PInt 3)] True
         \<lparr>calls = [], db = 0\<rparr>
     = (Inr 0, \<lparr>calls = [UpdateCall ?spec [(''a'', PInt 3)] True False], db = 1\<rparr>)"
    by (simp add: Storage_update_def m q u issue_def empty_collection_def)
  show ?thesis
    by (intro conjI) (rule m(1), rule m(2), rule q, rule r, rule p)
qed

lemma key_match_unique_fails:
  assumes "unique key" "\<not> set (names key) \<subseteq> query_names doc"
  shows "key_match key doc True = Inl AssertionError"
  using assms by (auto simp: key_match_def Key_match_def has_key_names list_all_iff)

lemma insert_checks_cases:
  "insert_checks l doc = Inr () \<or> insert_checks l doc = Inl AssertionError"
proof (induction l)
  case Nil
  show ?case by simp
next
  case (Cons k l)
  then show ?case using key_match_cases [of k doc True] by auto
qed

lemma insert_checks_fails:
  assumes "key \<in> set l" "head key \<noteq> Some ''id''" "key_match key doc True = Inl AssertionError"
  shows "insert_checks l doc = Inl AssertionError"
  using assms
proof (induction l)
  case Nil
  then show ?case by simp
next
  case (Cons k l)
  show ?case
  proof (cases "k = key")
    case True
    with Cons.prems show ?thesis by simp
  next
    case False
    with Cons have ih: "insert_checks l doc = Inl AssertionError" by simp
    show ?thesis using key_match_cases [of k doc True] ih by auto
  qed
qed

text \<open>
  Claim C2, as the code has it. When the document lacks a field name of some declared
  unique key whose head is not \<^verbatim>\<open>id\<close>, \<^verbatim>\<open>_insert\<close> raises the \<^verbatim>\<open>AssertionError\<close> of
  \<^verbatim>\<open>Key.match\<close> (it calls \<^verbatim>\<open>key.match\<close> itself, and nothing turns the error into a
  \<^verbatim>\<open>KeyMatchError\<close>), before it issues any request: the record of requests and the state of
  the store are unchanged, whatever the collection is.
\<close>

theorem insert_missing_key_field:
  assumes "key \<in> set (KeySet_iter (s_keys S))"
    and "unique key" and "head key \<noteq> Some ''id''"
    and "\<not> set (names key) \<subseteq> query_names doc"
  shows "Storage_insert L S C doc w = (Inl AssertionError, w)"
proof -
  have "key_match key doc True = Inl AssertionError"
    using assms(2,4) by (rule key_match_unique_fails)
  with assms(1,3) have "insert_checks (KeySet_iter (s_keys S)) doc = Inl AssertionError"
    by (rule insert_checks_fails)
  then show ?thesis by (simp add: Storage_insert_def)
qed

lemmas schema_eval = example_schema_def Attributes_init_def dbname_def keyset_eval

theorem insert_missing_key_field_witness:
  "\<lparr>index = [(Some ''name'', 1)], unique = True\<rparr> \<in> set (KeySet_iter (s_keys example_schema))
   \<and> unique \<lparr>index = [(Some ''name'', 1)], unique = True\<rparr>
   \<and> head \<lparr>index = [(Some ''name'', 1)], unique = True\<rparr> \<noteq> Some ''id''
   \<and> \<not> set (names \<lparr>index = [(Some ''name'', 1)], unique = True\<rparr>)
          \<subseteq> query_names [(''age'', PInt 3)]
   \<and> Storage_insert example_lib example_schema empty_collection [(''age'', PInt 3)]
        \<lparr>calls = [], db = 0\<rparr>
      = (Inl AssertionError, \<lparr>calls = [], db = 0\<rparr>)"
proof -
  let ?k = "\<lparr>index = [(Some ''name'', 1)], unique = True\<rparr>"
  have a: "?k \<in> set (KeySet_iter (s_keys example_schema))" by (simp add: schema_eval)
  have b: "unique ?k" by simp
  have c: "head ?k \<noteq> Some ''id''" by (simp add: head_def names_def)
  have d: "\<not> set (names ?k) \<subseteq> query_names [(''age'', PInt 3)]"
    by (simp add: names_def query_names_def)
  from insert_missing_key_field [OF a b c d] a b c d show ?thesis by blast
qed

text \<open>
  Inserting a document without the field \<^verbatim>\<open>name\<close> of the unique key: the error is
  \<^verbatim>\<open>AssertionError\<close>, not \<^verbatim>\<open>KeyMatchError\<close>.
\<close>

theorem insert_error_counterexample:
  "Storage_insert example_lib example_schema empty_collection [(''age'', PInt 3)]
        \<lparr>calls = [], db = 0\<rparr>
      = (Inl AssertionError, \<lparr>calls = [], db = 0\<rparr>)
   \<and> AssertionError \<noteq> KeyMatchError [(''age'', PInt 3)]"
  by (simp add: Storage_insert_def schema_eval)

section \<open>Claims about updates\<close>

lemma issue_result:
  "prim (db w) = (r, s') \<Longrightarrow> issue call prim w = (r, \<lparr>calls = calls w @ [call], db = s'\<rparr>)"
  by (simp add: issue_def)

text \<open>
  Claim C4. \<^verbatim>\<open>_update(query, doc, multi=False)\<close> validates the query with
  \<^verbatim>\<open>match(query, unique=True)\<close> and raises its \<^verbatim>\<open>KeyMatchError\<close> with the store untouched. When
  the query and the update translate and the store's update call itself succeeds, but
  reports \<^verbatim>\<open>updatedExisting\<close> false, \<^verbatim>\<open>DocumentNotFoundError(spec)\<close> is raised after that one
  call. With \<^verbatim>\<open>multi=True\<close> (validation by the non-unique match) the count \<^verbatim>\<open>n\<close> of the
  store's result is returned, whatever \<^verbatim>\<open>updatedExisting\<close> says.
\<close>

theorem update_not_found:
  "(KeySet_match (s_keys S) query True \<noteq> Inr query \<longrightarrow>
      Storage_update L S C query doc False w = (Inl (KeyMatchError query), w))
   \<and> (KeySet_match (s_keys S) query True = Inr query
        \<and> query_to_mongo L S query = Inr spec \<and> update_to_mongo L S doc = Inr upd
        \<and> c_update C spec upd False False (db w) = (Inr result, s')
        \<and> \<not> updatedExisting result \<longrightarrow>
      Storage_update L S C query doc False w
        = (Inl (DocumentNotFoundError spec),
           \<lparr>calls = calls w @ [UpdateCall spec upd False False], db = s'\<rparr>))
   \<and> (KeySet_match (s_keys S) query False = Inr query
        \<and> query_to_mongo L S query = Inr spec \<and> update_to_mongo L S doc = Inr upd
        \<and> c_update C spec upd True False (db w) = (Inr result, s') \<longrightarrow>
      Storage_update L S C query doc True w
        = (Inr (matched result),
           \<lparr>calls = calls w @ [UpdateCall spec upd True False], db = s'\<rparr>))"
proof -
  have a: "KeySet_match (s_keys S) query True \<noteq> Inr query \<longrightarrow>
      Storage_update L S C query doc False w = (Inl (KeyMatchError query), w)"
    using KeySet_match_cases [of "s_keys S" query True]
    by (auto simp: Storage_update_def)
  have b: "KeySet_match (s_keys S) query True = Inr query
        \<and> query_to_mongo L S query = Inr spec \<and> update_to_mongo L S doc = Inr upd
        \<and> c_update C spec upd False False (db w) = (Inr result, s')
        \<and> \<not> updatedExisting result \<longrightarrow>
      Storage_update L S C query doc False w
        = (Inl (DocumentNotFoundError spec),
           \<lparr>calls = calls w @ [UpdateCall spec upd False False], db = s'\<rparr>)"
    by (simp add: Storage_update_def issue_result)
  have c: "KeySet_match (s_keys S) query False = Inr query
        \<and> query_to_mongo L S query = Inr spec \<and> update_to_mongo L S doc = Inr upd
        \<and> c_update C spec upd True False (db w) = (Inr result, s') \<longrightarrow>
      Storage_update L S C query doc True w
        = (Inr (matched result),
           \<lparr>calls = calls w @ [UpdateCall spec upd True False], db = s'\<rparr>)"
    by (simp add: Storage_update_def issue_result)
  from a b c show ?thesis by blast
qed

lemmas translate_eval =
  query_to_mongo_def update_to_mongo_def document_to_mongo_def Storage_to_mongo_def
  get_fieldtype_def Attributes_get_fieldtype_def get_dbname_def query_helper_def
  operand_to_mongo_def startswith_def Field_to_mongo_def ListField_to_mongo_def
  Field_do_to_mongo_def

lemma py_eq_None: "py_eq x PNone \<longleftrightarrow> x = PNone"
  by (cases x) simp_all

lemmas codec_eval =
  StringField_do_to_mongo_def IntField_do_to_mongo_def ListField_do_to_mongo_def
  IdentityField_do_to_mongo_def py_eq_None

theorem update_not_found_witness:
  "Storage_update example_lib example_schema empty_collection
       [(''age'', PInt 3)] [(''age'', PInt 4)] False \<lparr>calls = [], db = 0\<rparr>
     = (Inl (KeyMatchError [(''age'', PInt 3)]), \<lparr>calls = [], db = 0\<rparr>)
   \<and> Storage_update example_lib example_schema empty_collection
       [(''name'', PStr ''n'')] [(''age'', PInt 4)] False \<lparr>calls = [], db = 0\<rparr>
     = (Inl (DocumentNotFoundError [(''name'', PStr ''n'')]),
        \<lparr>calls = [UpdateCall [(''name'', PStr ''n'')] [(''a'', PInt 4)] False False], db = 1\<rparr>)
   \<and> Storage_update example_lib example_schema empty_collection
       [(''tags'', PStr ''t'')] [(''age'', PInt 4)] True \<lparr>calls = [], db = 0\<rparr>
     = (Inr 0,
        \<lparr>calls = [UpdateCall [(''tags'', PStr ''t'')] [(''a'', PInt 4)] True False], db = 1\<rparr>)"
proof -
  let ?w = "\<lparr>calls = [], db = 0::nat\<rparr>"
  have m1: "KeySet_match (s_keys example_schema) [(''age'', PInt 3)] True
              \<noteq> Inr [(''age'', PInt 3)]"
    by (simp add: schema_eval)
  have m2: "KeySet_match (s_keys example_schema) [(''name'', PStr ''n'')] True
              = Inr [(''name'', PStr ''n'')]"
    by (simp add: schema_eval)
  have m3: "KeySet_match (s_keys example_schema) [(''tags'', PStr ''t'')] False
              = Inr [(''tags'', PStr ''t'')]"
    by (simp add: schema_eval)
  have q2: "query_to_mongo example_lib example_schema [(''name'', PStr ''n'')]
              = Inr [(''name'', PStr ''n'')]"
    by (simp add: translate_eval codec_eval schema_eval)
  have q3: "query_to_mongo example_lib example_schema [(''tags'', PStr ''t'')]
              = Inr [(''tags'', PStr ''t'')]"
    by (simp add: translate_eval codec_eval schema_eval)
  have u: "update_to_mongo example_lib example_schema [(''age'', PInt 4)] = Inr [(''a'', PInt 4)]"
    by (simp add: translate_eval codec_eval schema_eval)
  have c2: "c_update empty_collection [(''name'', PStr ''n'')] [(''a'', PInt 4)] False False (db ?w)
              = (Inr \<lparr>updatedExisting = False, matched = 0\<rparr>, 1)"
    by (simp add: empty_collection_def)
  have c3: "c_update empty_collection [(''tags'', PStr ''t'')] [(''a'', PInt 4)] True False (db ?w)
              = (Inr \<lparr>updatedExisting = False, matched = 0\<rparr>, 1)"
    by (simp add: empty_collection_def)
  from update_not_found [where S = example_schema and query = "[(''age'', PInt 3)]"
      and L = example_lib and C = empty_collection and doc = "[(''age'', PInt 4)]" and w = ?w] m1
  have r1: "Storage_update example_lib example_schema empty_collection
       [(''age'', PInt 3)] [(''age'', PInt 4)] False ?w
     = (Inl (KeyMatchError [(''age'', PInt 3)]), ?w)" by blast
  from update_not_found [where S = example_schema and query = "[(''name'', PStr ''n'')]"
      and L = example_lib and spec = "[(''name'', PStr ''n'')]" and doc = "[(''age'', PInt 4)]"
      and upd = "[(''a'', PInt 4)]" and C = empty_collection and w = ?w
      and result = "\<lparr>updatedExisting = False, matched = 0\<rparr>" and s' = 1] m2 q2 u c2
  have r2: "Storage_update example_lib example_schema empty_collection
       [(''name'', PStr ''n'')] [(''age'', PInt 4)] False ?w
     = (Inl (DocumentNotFoundError [(''name'', PStr ''n'')]),
        \<lparr>calls = [UpdateCall [(''name'', PStr ''n'')] [(''a'', PInt 4)] False False], db = 1\<rparr>)"
    by simp
  from update_not_found [where S = example_schema and query = "[(''tags'', PStr ''t'')]"
      and L = example_lib and spec = "[(''tags'', PStr ''t'')]" and doc = "[(''age'', PInt 4)]"
      and upd = "[(''a'', PInt 4)]" and C = empty_collection and w = ?w
      and result = "\<lparr>updatedExisting = False, matched = 0\<rparr>" and s' = 1] m3 q3 u c3
  have r3: "Storage_update example_lib example_schema empty_collection
       [(''tags'', PStr ''t'')] [(''age'', PInt 4)] True ?w
     = (Inr 0,
        \<lparr>calls = [UpdateCall [(''tags'', PStr ''t'')] [(''a'', PInt 4)] True False], db = 1\<rparr>)"
    by simp
  from r1 r2 r3 show ?thesis by blast
qed

section \<open>Claims about translation\<close>

lemma update_items_untouched:
  assumes "update_items L S doc a = Inr answer"
    and "\<forall>k \<in> set (map fst doc). update_target S k \<noteq> t"
  shows "map_of answer t = map_of a t"
  using assms
proof (induction doc arbitrary: a)
  case Nil
  then show ?case by simp
next
  case (Cons p doc)
  obtain k v where p: "p = (k, v)" by (cases p)
  from Cons.prems(2) have t: "update_target S k \<noteq> t"
    and rest: "\<forall>k \<in> set (map fst doc). update_target S k \<noteq> t" by (simp_all add: p)
  show ?case
  proof (cases "startswith k ''$''")
    case True
    with Cons.prems(1) obtain x where x: "update_items L S doc (AList.update k x a) = Inr answer"
      by (auto simp: p split: sum.splits if_splits)
    from True t have "k \<noteq> t" by (simp add: update_target_def)
    with Cons.IH [OF x rest] show ?thesis by (simp add: update_conv')
  next
    case False
    with Cons.prems(1) obtain ft x where ft: "get_fieldtype S k = Inr ft"
      and x: "update_items L S doc (AList.update (get_dbname ft k) x a) = Inr answer"
      by (auto simp: p split: sum.splits)
    from False ft t have "get_dbname ft k \<noteq> t" by (simp add: update_target_def)
    with Cons.IH [OF x rest] show ?thesis by (simp add: update_conv')
  qed
qed

lemma update_items_set:
  assumes "update_items L S doc a = Inr answer"
    and "(key, val) \<in> set doc" and "\<not> startswith key ''$''"
    and "distinct (map fst doc)"
    and "\<forall>k \<in> set (map fst doc). k \<noteq> key \<longrightarrow> update_target S k \<noteq> update_target S key"
  shows "\<exists>ft v. get_fieldtype S key = Inr ft \<and> to_mongo L (fst ft) val ''AUTO'' = Inr v
           \<and> map_of answer (get_dbname ft key) = Some v"
  using assms
proof (induction doc arbitrary: a)
  case Nil
  then show ?case by simp
next
  case (Cons p doc)
  obtain k v where p: "p = (k, v)" by (cases p)
  show ?case
  proof (cases "k = key")
    case True
    with Cons.prems(2,4) have v: "v = val" and notin: "key \<notin> set (map fst doc)"
      by (auto simp: p rev_image_eqI)
    from Cons.prems(1,3) True obtain ft x where ft: "get_fieldtype S key = Inr ft"
      and enc: "to_mongo L (fst ft) val ''AUTO'' = Inr x"
      and x: "update_items L S doc (AList.update (get_dbname ft key) x a) = Inr answer"
      by (auto simp: p v split: sum.splits)
    have tk: "update_target S key = get_dbname ft key"
      using Cons.prems(3) ft by (simp add: update_target_def)
    have "\<forall>k' \<in> set (map fst doc). update_target S k' \<noteq> get_dbname ft key"
    proof
      fix k' assume k': "k' \<in> set (map fst doc)"
      with notin have "k' \<noteq> key" by blast
      moreover from k' have "k' \<in> set (map fst (p # doc))" by simp
      ultimately have "update_target S k' \<noteq> update_target S key"
        using Cons.prems(5) by blast
      with tk show "update_target S k' \<noteq> get_dbname ft key" by simp
    qed
    from update_items_untouched [OF x this]
    have "map_of answer (get_dbname ft key) = Some x" by (simp add: update_conv')
    with ft enc show ?thesis by blast
  next
    case False
    with Cons.prems(2) have mem: "(key, val) \<in> set doc" by (simp add: p)
    from Cons.prems(4) have d: "distinct (map fst doc)" by simp
    from Cons.prems(5) have o: "\<forall>k \<in> set (map fst doc). k \<noteq> key \<longrightarrow>
        update_target S k \<noteq> update_target S key" by simp
    from Cons.prems(1) obtain a' where "update_items L S doc a' = Inr answer"
      by (auto simp: p split: sum.splits if_splits)
    from Cons.IH [OF this mem Cons.prems(3) d o] show ?thesis .
  qed
qed

lemma update_single_bare:
  assumes "\<not> startswith key ''$''"
  shows "update_to_mongo L S [(key, val)] =
     (case get_fieldtype S key of
        Inl e \<Rightarrow> Inl e
      | Inr ft \<Rightarrow>
          (case to_mongo L (fst ft) val ''AUTO'' of
             Inl e \<Rightarrow> Inl e
           | Inr v \<Rightarrow> Inr [(get_dbname ft key, v)]))"
  using assms by (simp add: update_to_mongo_def split: sum.splits)

lemma update_single_set:
  "update_to_mongo L S [(''$set'', PDict [(key, val)])] =
     (case get_fieldtype S key of
        Inl e \<Rightarrow> Inl e
      | Inr ft \<Rightarrow>
          (case to_mongo L (fst ft) val ''AUTO'' of
             Inl e \<Rightarrow> Inl e
           | Inr v \<Rightarrow> Inr [(''$set'', PDict [(get_dbname ft key, v)])]))"
  by (simp add: update_to_mongo_def operand_to_mongo_def Storage_to_mongo_def startswith_def
           split: sum.splits)

lemma update_items_keys:
  assumes "update_items L S doc a = Inr answer"
  shows "set (map fst answer) = set (map fst a) \<union> update_target S ` set (map fst doc)"
  using assms
proof (induction doc arbitrary: a)
  case Nil
  then show ?case by simp
next
  case (Cons p doc)
  obtain k v where p: "p = (k, v)" by (cases p)
  show ?case
  proof (cases "startswith k ''$''")
    case True
    with Cons.prems obtain x where x: "update_items L S doc (AList.update k x a) = Inr answer"
      by (auto simp: p split: sum.splits if_splits)
    from True have t: "update_target S k = k" by (simp add: update_target_def)
    from Cons.IH [OF x] t show ?thesis by (auto simp: p dom_update)
  next
    case False
    with Cons.prems obtain ft x where ft: "get_fieldtype S k = Inr ft"
      and x: "update_items L S doc (AList.update (get_dbname ft k) x a) = Inr answer"
      by (auto simp: p split: sum.splits)
    from False ft have t: "update_target S k = get_dbname ft k" by (simp add: update_target_def)
    from Cons.IH [OF x] t show ?thesis by (auto simp: p dom_update)
  qed
qed

text \<open>
  Claim C7, as the code has it. In \<^verbatim>\<open>_update_to_mongo\<close> a top-level key that does not start
  with \<^verbatim>\<open>$\<close> is resolved as a field name, its value is encoded by the field's \<^verbatim>\<open>to_mongo\<close>
  under the context \<^verbatim>\<open>'AUTO'\<close>, and the store-native update document has the encoded value
  under the store-side name of the field, at its top level (a document is a dictionary, so
  its keys are distinct; no other entry may be written under the same name). No operator
  is built around it: the keys of the store-native document are the operator keys of the
  update document and the store-side names of its bare fields, nothing else, and the
  translation of a single bare field is the one-entry document of its encoded value. An
  explicit \<^verbatim>\<open>$set\<close> of the field encodes the value in the same way, but keeps the entry
  inside the \<^verbatim>\<open>$set\<close> operand, so the two translations differ.
\<close>

theorem update_bare_field_top_level:
  assumes "\<not> startswith key ''$''"
  shows "(update_to_mongo L S doc = Inr answer \<and> (key, val) \<in> set doc
          \<and> distinct (map fst doc)
          \<and> (\<forall>k \<in> set (map fst doc). k \<noteq> key \<longrightarrow>
                 update_target S k \<noteq> update_target S key) \<longrightarrow>
          (\<exists>ft v. get_fieldtype S key = Inr ft
                  \<and> to_mongo L (fst ft) val ''AUTO'' = Inr v
                  \<and> map_of answer (get_dbname ft key) = Some v))
       \<and> (update_to_mongo L S doc = Inr answer \<longrightarrow>
            set (map fst answer) = update_target S ` set (map fst doc))
       \<and> update_to_mongo L S [(key, val)]
           = (case get_fieldtype S key of
                Inl e \<Rightarrow> Inl e
              | Inr ft \<Rightarrow>
                  (case to_mongo L (fst ft) val ''AUTO'' of
                     Inl e \<Rightarrow> Inl e
                   | Inr v \<Rightarrow> Inr [(get_dbname ft key, v)]))
       \<and> update_to_mongo L S [(''$set'', PDict [(key, val)])]
           = map_sum id (\<lambda>a. [(''$set'', PDict a)]) (update_to_mongo L S [(key, val)])"
proof -
  have d: "update_to_mongo L S [(''$set'', PDict [(key, val)])]
           = map_sum id (\<lambda>a. [(''$set'', PDict a)]) (update_to_mongo L S [(key, val)])"
    unfolding update_single_set update_single_bare [OF assms]
    by (simp split: sum.splits)
  have a: "update_to_mongo L S doc = Inr answer \<and> (key, val) \<in> set doc
          \<and> distinct (map fst doc)
          \<and> (\<forall>k \<in> set (map fst doc). k \<noteq> key \<longrightarrow>
                 update_target S k \<noteq> update_target S key) \<longrightarrow>
          (\<exists>ft v. get_fieldtype S key = Inr ft
                  \<and> to_mongo L (fst ft) val ''AUTO'' = Inr v
                  \<and> map_of answer (get_dbname ft key) = Some v)"
    using update_items_set [of L S doc "[]" answer key "val"] assms
    unfolding update_to_mongo_def by blast
  have b: "update_to_mongo L S doc = Inr answer \<longrightarrow>
            set (map fst answer) = update_target S ` set (map fst doc)"
    using update_items_keys [of L S doc "[]" answer]
    unfolding update_to_mongo_def by simp
  note c = update_single_bare [OF assms, of L S "val"]
  from a b c d show ?thesis by (intro conjI)
qed

theorem update_bare_field_top_level_witness:
  "\<not> startswith ''age'' ''$''
   \<and> update_to_mongo example_lib example_schema
         [(''$push'', PDict [(''tags'', PStr ''t'')]), (''age'', PStr ''41'')]
       = Inr [(''$push'', PDict [(''tags'', PStr ''t'')]), (''a'', PInt 41)]
   \<and> get_fieldtype example_schema ''age'' = Inr (IntField (PInt 0), Some ''a'')
   \<and> to_mongo example_lib (IntField (PInt 0)) (PStr ''41'') ''AUTO'' = Inr (PInt 41)
   \<and> map_of [(''$push'', PDict [(''tags'', PStr ''t'')]), (''a'', PInt 41)]
         (get_dbname (IntField (PInt 0), Some ''a'') ''age'') = Some (PInt 41)
   \<and> set (map fst [(''$push'', PDict [(''tags'', PStr ''t'')]), (''a'', PInt 41)])
       = update_target example_schema
           ` set (map fst [(''$push'', PDict [(''tags'', PStr ''t'')]), (''age'', PStr ''41'')])
   \<and> update_to_mongo example_lib example_schema [(''age'', PStr ''41'')]
       = Inr [(''a'', PInt 41)]
   \<and> update_to_mongo example_lib example_schema [(''$set'', PDict [(''age'', PStr ''41'')])]
       = Inr [(''$set'', PDict [(''a'', PInt 41)])]"
proof -
  let ?doc = "[(''$push'', PDict [(''tags'', PStr ''t'')]), (''age'', PStr ''41'')]"
  let ?ans = "[(''$push'', PDict [(''tags'', PStr ''t'')]), (''a'', PInt 41)]"
  have ns: "\<not> startswith ''age'' ''$''" by (simp add: startswith_def)
  have ri: "read_int ''41'' = Some 41" by (simp add: read_int_def read_digits_def)
  have enc: "to_mongo example_lib (IntField (PInt 0)) (PStr ''41'') ''AUTO'' = Inr (PInt 41)"
    by (simp add: translate_eval codec_eval example_lib_def ri)
  have gf: "get_fieldtype example_schema ''age'' = Inr (IntField (PInt 0), Some ''a'')"
    by (simp add: translate_eval schema_eval)
  have gt: "get_fieldtype example_schema ''tags'' = Inr (ListField (StringField (PStr [])), None)"
    by (simp add: translate_eval schema_eval)
  have et: "to_mongo example_lib (ListField (StringField (PStr []))) (PStr ''t'') ''ATOM''
              = Inr (PStr ''t'')"
    by (simp add: translate_eval codec_eval)
  have u: "update_to_mongo example_lib example_schema ?doc = Inr ?ans"
    by (simp add: update_to_mongo_def operand_to_mongo_def Storage_to_mongo_def startswith_def
          gf gt et enc get_dbname_def del: to_mongo.simps)
  have tg: "\<forall>k \<in> set (map fst ?doc). k \<noteq> ''age'' \<longrightarrow>
              update_target example_schema k \<noteq> update_target example_schema ''age''"
    by (simp add: update_target_def startswith_def gf get_dbname_def)
  note T = update_bare_field_top_level [OF ns, where L = example_lib and S = example_schema
      and doc = ?doc and answer = ?ans and val = "PStr ''41''"]
  from T u tg
  have "(\<exists>ft v. get_fieldtype example_schema ''age'' = Inr ft
                  \<and> to_mongo example_lib (fst ft) (PStr ''41'') ''AUTO'' = Inr v
                  \<and> map_of ?ans (get_dbname ft ''age'') = Some v)"
    by simp
  then have m: "map_of ?ans (get_dbname (IntField (PInt 0), Some ''a'') ''age'') = Some (PInt 41)"
    using gf enc by auto
  from T have "update_to_mongo example_lib example_schema ?doc = Inr ?ans \<longrightarrow>
            set (map fst ?ans) = update_target example_schema ` set (map fst ?doc)"
    by (rule conjunct1 [OF conjunct2])
  then have k: "set (map fst ?ans) = update_target example_schema ` set (map fst ?doc)"
    using u by (rule mp)
  from T have "update_to_mongo example_lib example_schema [(''age'', PStr ''41'')]
           = (case get_fieldtype example_schema ''age'' of
                Inl e \<Rightarrow> Inl e
              | Inr ft \<Rightarrow>
                  (case to_mongo example_lib (fst ft) (PStr ''41'') ''AUTO'' of
                     Inl e \<Rightarrow> Inl e
                   | Inr v \<Rightarrow> Inr [(get_dbname ft ''age'', v)]))"
    by (rule conjunct1 [OF conjunct2 [OF conjunct2]])
  then have bare: "update_to_mongo example_lib example_schema [(''age'', PStr ''41'')]
                = Inr [(''a'', PInt 41)]"
    by (simp add: gf enc get_dbname_def del: to_mongo.simps)
  from T have "update_to_mongo example_lib example_schema [(''$set'', PDict [(''age'', PStr ''41'')])]
           = map_sum id (\<lambda>a. [(''$set'', PDict a)])
               (update_to_mongo example_lib example_schema [(''age'', PStr ''41'')])"
    by (rule conjunct2 [OF conjunct2 [OF conjunct2]])
  then have s: "update_to_mongo example_lib example_schema [(''$set'', PDict [(''age'', PStr ''41'')])]
       = Inr [(''$set'', PDict [(''a'', PInt 41)])]"
    by (simp only: bare map_sum.simps)
  show ?thesis
    by (intro conjI) (rule ns, rule u, rule gf, rule enc, rule m, rule k, rule bare, rule s)
qed

text \<open>
  The bare field \<^verbatim>\<open>{'age': '41'}\<close> is translated to \<^verbatim>\<open>{'a': 41}\<close>, a document with no
  \<^verbatim>\<open>$set\<close> entry; the explicit set \<^verbatim>\<open>{'$set': {'age': '41'}}\<close> is translated to
  \<^verbatim>\<open>{'$set': {'a': 41}}\<close>, a different document.
\<close>

theorem update_bare_field_counterexample:
  "update_to_mongo example_lib example_schema [(''age'', PStr ''41'')]
     = Inr [(''a'', PInt 41)]
   \<and> map_of [(''a'', PInt 41)] ''$set'' = None
   \<and> update_to_mongo example_lib example_schema [(''$set'', PDict [(''age'', PStr ''41'')])]
     = Inr [(''$set'', PDict [(''a'', PInt 41)])]
   \<and> [(''a'', PInt 41)] \<noteq> [(''$set'', PDict [(''a'', PInt 41)])]"
proof -
  have ns: "\<not> startswith ''age'' ''$''" by (simp add: startswith_def)
  have ri: "read_int ''41'' = Some 41" by (simp add: read_int_def read_digits_def)
  have enc: "to_mongo example_lib (IntField (PInt 0)) (PStr ''41'') ''AUTO'' = Inr (PInt 41)"
    by (simp add: translate_eval codec_eval example_lib_def ri)
  have gf: "get_fieldtype example_schema ''age'' = Inr (IntField (PInt 0), Some ''a'')"
    by (simp add: translate_eval schema_eval)
  have bare: "update_to_mongo example_lib example_schema [(''age'', PStr ''41'')]
                = Inr [(''a'', PInt 41)]"
    by (simp add: update_single_bare [OF ns] gf enc get_dbname_def del: to_mongo.simps)
  have st: "update_to_mongo example_lib example_schema [(''$set'', PDict [(''age'', PStr ''41'')])]
     = Inr [(''$set'', PDict [(''a'', PInt 41)])]"
    by (simp add: update_single_set gf enc get_dbname_def del: to_mongo.simps)
  have n: "map_of [(''a'', PInt 41)] ''$set'' = None" by simp
  have d: "[(''a'', PInt 41)] \<noteq> [(''$set'', PDict [(''a'', PInt 41)])]" by simp
  show ?thesis by (intro conjI) (rule bare, rule n, rule st, rule d)
qed

lemma to_mongo_items_unresolved:
  assumes "get_fieldtype S name = Inl err" "name \<in> set (map fst doc)"
  shows "\<exists>e. to_mongo_items L S context dotransform doc a = Inl e"
  using assms(2)
proof (induction doc arbitrary: a)
  case Nil
  then show ?case by simp
next
  case (Cons p doc)
  obtain k v where p: "p = (k, v)" by (cases p)
  show ?case
  proof (cases "k = name")
    case True
    with assms(1) show ?thesis by (simp add: p)
  next
    case False
    with Cons.prems have "name \<in> set (map fst doc)" by (simp add: p)
    from Cons.IH [OF this] show ?thesis by (auto simp: p split: sum.splits)
  qed
qed

lemma query_items_unresolved:
  assumes "get_fieldtype S name = Inl err" "name \<in> set (map fst doc)"
  shows "\<exists>e. query_items L S doc a = Inl e"
  using assms(2)
proof (induction doc arbitrary: a)
  case Nil
  then show ?case by simp
next
  case (Cons p doc)
  obtain k v where p: "p = (k, v)" by (cases p)
  show ?case
  proof (cases "k = name")
    case True
    with assms(1) show ?thesis by (simp add: p)
  next
    case False
    with Cons.prems have "name \<in> set (map fst doc)" by (simp add: p)
    from Cons.IH [OF this] show ?thesis by (auto simp: p split: sum.splits)
  qed
qed

lemma update_items_unresolved:
  assumes "get_fieldtype S name = Inl err" "\<not> startswith name ''$''"
    and "name \<in> set (map fst doc)"
  shows "\<exists>e. update_items L S doc a = Inl e"
  using assms(3)
proof (induction doc arbitrary: a)
  case Nil
  then show ?case by simp
next
  case (Cons p doc)
  obtain k v where p: "p = (k, v)" by (cases p)
  show ?case
  proof (cases "k = name")
    case True
    with assms(1,2) show ?thesis by (simp add: p)
  next
    case False
    with Cons.prems have "name \<in> set (map fst doc)" by (simp add: p)
    from Cons.IH [OF this] have ih: "\<And>a. \<exists>e. update_items L S doc a = Inl e" .
    show ?thesis
    proof (cases "update_items L S (p # doc) a")
      case (Inl e)
      then show ?thesis by blast
    next
      case (Inr ans)
      then obtain a' where "update_items L S doc a' = Inr ans"
        by (auto simp: p split: sum.splits if_splits)
      with ih [of a'] show ?thesis by simp
    qed
  qed
qed

lemma identity_scalar:
  "to_mongo L IdentityField val ''AUTO'' = Inr val"
  "to_mongo L IdentityField val ''NONE'' = Inr val"
  "from_mongo L IdentityField val = Inr val"
  by (simp_all add: Field_to_mongo_def IdentityField_do_to_mongo_def from_mongo_def
        Field_from_mongo_def IdentityField_do_from_mongo_def)

text \<open>
  Claim C8. For a name that the attributes do not declare, \<^verbatim>\<open>_get_fieldtype\<close> raises
  \<^verbatim>\<open>UnrecognizedAttributeError(name)\<close> when the name has no dot: the translation of a
  document, a query or an update (there, for a name that is not an operator key) whose only
  entry is under that name raises this error, and no document that uses the name at its top
  level translates. When the name has a dot it resolves to a fresh \<^verbatim>\<open>IdentityField\<close>, which
  passes values through unchanged under the scalar contexts and keeps the name as the
  store-side name: the entry translates to itself (in a query, when the val is not a
  mapping of operators, which goes through the operator loop instead).
\<close>

theorem undeclared_field_names:
  assumes "Attributes_get_fieldtype (s_attributes S) name = None"
  shows "(CHR ''.'' \<notin> set name \<longrightarrow>
            get_fieldtype S name = Inl (UnrecognizedAttributeError name)
          \<and> document_to_mongo L S [(name, val)] = Inl (UnrecognizedAttributeError name)
          \<and> query_to_mongo L S [(name, val)] = Inl (UnrecognizedAttributeError name)
          \<and> (\<not> startswith name ''$'' \<longrightarrow>
                update_to_mongo L S [(name, val)] = Inl (UnrecognizedAttributeError name))
          \<and> (name \<in> set (map fst doc) \<longrightarrow>
                (\<exists>e. document_to_mongo L S doc = Inl e)
              \<and> (\<exists>e. query_to_mongo L S doc = Inl e)
              \<and> (\<not> startswith name ''$'' \<longrightarrow> (\<exists>e. update_to_mongo L S doc = Inl e))))
       \<and> (CHR ''.'' \<in> set name \<longrightarrow>
            get_fieldtype S name = Inr (IdentityField, None)
          \<and> get_dbname (IdentityField, None) name = name
          \<and> to_mongo L IdentityField val ''AUTO'' = Inr val
          \<and> to_mongo L IdentityField val ''NONE'' = Inr val
          \<and> from_mongo L IdentityField val = Inr val
          \<and> document_to_mongo L S [(name, val)] = Inr [(name, val)]
          \<and> (\<not> startswith name ''$'' \<longrightarrow>
                update_to_mongo L S [(name, val)] = Inr [(name, val)])
          \<and> ((\<forall>ops. val = PDict ops \<longrightarrow> \<not> list_all (\<lambda>kv. startswith (fst kv) ''$'') ops) \<longrightarrow>
                query_to_mongo L S [(name, val)] = Inr [(name, val)]))"
proof (cases "CHR ''.'' \<in> set name")
  case False
  have g: "get_fieldtype S name = Inl (UnrecognizedAttributeError name)"
    using assms False by (simp add: get_fieldtype_def)
  have d1: "document_to_mongo L S [(name, val)] = Inl (UnrecognizedAttributeError name)"
    by (simp add: document_to_mongo_def Storage_to_mongo_def g)
  have q1: "query_to_mongo L S [(name, val)] = Inl (UnrecognizedAttributeError name)"
    by (simp add: query_to_mongo_def g)
  have u1: "\<not> startswith name ''$'' \<longrightarrow>
              update_to_mongo L S [(name, val)] = Inl (UnrecognizedAttributeError name)"
    by (simp add: update_to_mongo_def g)
  have d2: "name \<in> set (map fst doc) \<longrightarrow> (\<exists>e. document_to_mongo L S doc = Inl e)"
    unfolding document_to_mongo_def Storage_to_mongo_def
    using to_mongo_items_unresolved [OF g] by blast
  have q2: "name \<in> set (map fst doc) \<longrightarrow> (\<exists>e. query_to_mongo L S doc = Inl e)"
    unfolding query_to_mongo_def using query_items_unresolved [OF g] by blast
  have u2: "name \<in> set (map fst doc) \<longrightarrow> \<not> startswith name ''$'' \<longrightarrow>
              (\<exists>e. update_to_mongo L S doc = Inl e)"
    unfolding update_to_mongo_def using update_items_unresolved [OF g] by blast
  from False g d1 q1 u1 d2 q2 u2 show ?thesis by blast
next
  case True
  have g: "get_fieldtype S name = Inr (IdentityField, None)"
    using assms True by (simp add: get_fieldtype_def)
  have n: "get_dbname (IdentityField, None) name = name" by (simp add: get_dbname_def)
  have d: "document_to_mongo L S [(name, val)] = Inr [(name, val)]"
    by (simp add: document_to_mongo_def Storage_to_mongo_def g n identity_scalar
             del: to_mongo.simps)
  have u: "\<not> startswith name ''$'' \<longrightarrow>
             update_to_mongo L S [(name, val)] = Inr [(name, val)]"
    by (simp add: update_to_mongo_def g n identity_scalar del: to_mongo.simps)
  have q: "(\<forall>ops. val = PDict ops \<longrightarrow> \<not> list_all (\<lambda>kv. startswith (fst kv) ''$'') ops) \<longrightarrow>
             query_to_mongo L S [(name, val)] = Inr [(name, val)]"
  proof
    assume a: "\<forall>ops. val = PDict ops \<longrightarrow> \<not> list_all (\<lambda>kv. startswith (fst kv) ''$'') ops"
    have "query_helper L (IdentityField, None) val = Inr val"
      using a by (cases "val") (simp_all add: query_helper_def identity_scalar del: to_mongo.simps)
    then show "query_to_mongo L S [(name, val)] = Inr [(name, val)]"
      by (simp add: query_to_mongo_def g n)
  qed
  from True g n d u q identity_scalar [of L "val"] show ?thesis by blast
qed

theorem undeclared_field_names_witness:
  "Attributes_get_fieldtype (s_attributes example_schema) ''colour'' = None
   \<and> Attributes_get_fieldtype (s_attributes example_schema) ''address.city'' = None
   \<and> query_to_mongo example_lib example_schema [(''colour'', PStr ''red'')]
       = Inl (UnrecognizedAttributeError ''colour'')
   \<and> update_to_mongo example_lib example_schema [(''colour'', PStr ''red'')]
       = Inl (UnrecognizedAttributeError ''colour'')
   \<and> document_to_mongo example_lib example_schema [(''colour'', PStr ''red'')]
       = Inl (UnrecognizedAttributeError ''colour'')
   \<and> get_fieldtype example_schema ''address.city'' = Inr (IdentityField, None)
   \<and> query_to_mongo example_lib example_schema [(''address.city'', PStr ''Oslo'')]
       = Inr [(''address.city'', PStr ''Oslo'')]
   \<and> update_to_mongo example_lib example_schema [(''address.city'', PStr ''Oslo'')]
       = Inr [(''address.city'', PStr ''Oslo'')]
   \<and> document_to_mongo example_lib example_schema [(''address.city'', PStr ''Oslo'')]
       = Inr [(''address.city'', PStr ''Oslo'')]"
proof -
  have a: "Attributes_get_fieldtype (s_attributes example_schema) ''colour'' = None"
    by (simp add: Attributes_get_fieldtype_def schema_eval)
  have b: "Attributes_get_fieldtype (s_attributes example_schema) ''address.city'' = None"
    by (simp add: Attributes_get_fieldtype_def schema_eval)
  have c: "CHR ''.'' \<notin> set ''colour''" "\<not> startswith ''colour'' ''$''"
    "CHR ''.'' \<in> set ''address.city''" "\<not> startswith ''address.city'' ''$''"
    by (simp_all add: startswith_def)
  from undeclared_field_names [OF a, where L = example_lib and val = "PStr ''red''"] c
  have r1: "query_to_mongo example_lib example_schema [(''colour'', PStr ''red'')]
       = Inl (UnrecognizedAttributeError ''colour'')"
    "update_to_mongo example_lib example_schema [(''colour'', PStr ''red'')]
       = Inl (UnrecognizedAttributeError ''colour'')"
    "document_to_mongo example_lib example_schema [(''colour'', PStr ''red'')]
       = Inl (UnrecognizedAttributeError ''colour'')"
    by blast+
  from undeclared_field_names [OF b, where L = example_lib and val = "PStr ''Oslo''"] c
  have r2: "get_fieldtype example_schema ''address.city'' = Inr (IdentityField, None)"
    "query_to_mongo example_lib example_schema [(''address.city'', PStr ''Oslo'')]
       = Inr [(''address.city'', PStr ''Oslo'')]"
    "update_to_mongo example_lib example_schema [(''address.city'', PStr ''Oslo'')]
       = Inr [(''address.city'', PStr ''Oslo'')]"
    "document_to_mongo example_lib example_schema [(''address.city'', PStr ''Oslo'')]
       = Inr [(''address.city'', PStr ''Oslo'')]"
    by simp_all
  from a b r1 r2 show ?thesis by blast
qed

section \<open>Claims about the inbound transforms\<close>

lemma py_int_raises:
  "py_int L v = Inl e \<Longrightarrow> e = TypeError \<or> e = ValueError \<or> e = OverflowError"
  by (cases "(L, v)" rule: py_int.cases) (auto split: option.splits)



text \<open>
  Claim C6, as the code has it. \<^verbatim>\<open>IntField.do_from_mongo\<close> catches \<^verbatim>\<open>TypeError\<close> only: when
  \<^verbatim>\<open>int(value)\<close> fails with \<^verbatim>\<open>TypeError\<close> (a null, a list, a mapping, an identifier, a
  timestamp) the inbound transform returns the default of the field; when it fails in any
  other way (\<^verbatim>\<open>ValueError\<close> for a string that is no numeral or for NaN, \<^verbatim>\<open>OverflowError\<close> for
  an infinity) the error reaches \<^verbatim>\<open>Field.from_mongo\<close>, which returns \<^verbatim>\<open>None\<close>. When the
  coercion succeeds its result is returned.
\<close>

theorem IntField_from_mongo_failure:
  "(py_int L value = Inl TypeError \<longrightarrow> from_mongo L (IntField dflt) value = Inr dflt)
   \<and> (py_int L value = Inl e \<and> e \<noteq> TypeError \<longrightarrow>
         from_mongo L (IntField dflt) value = Inr PNone)
   \<and> (py_int L value = Inr i \<longrightarrow> from_mongo L (IntField dflt) value = Inr i)"
proof -
  have a: "py_int L value = Inl TypeError \<longrightarrow> from_mongo L (IntField dflt) value = Inr dflt"
    by (simp add: from_mongo_def Field_from_mongo_def IntField_do_from_mongo_def)
  have b: "py_int L value = Inl e \<and> e \<noteq> TypeError \<longrightarrow>
             from_mongo L (IntField dflt) value = Inr PNone"
    using py_int_raises [of L "value" e]
    by (auto simp: from_mongo_def Field_from_mongo_def IntField_do_from_mongo_def)
  have c: "py_int L value = Inr i \<longrightarrow> from_mongo L (IntField dflt) value = Inr i"
    by (simp add: from_mongo_def Field_from_mongo_def IntField_do_from_mongo_def)
  from a b c show ?thesis by blast
qed

theorem IntField_from_mongo_failure_witness:
  "py_int example_lib PNone = Inl TypeError
   \<and> from_mongo example_lib (IntField (PInt 7)) PNone = Inr (PInt 7)
   \<and> py_int example_lib (PStr ''abc'') = Inl ValueError
   \<and> from_mongo example_lib (IntField (PInt 7)) (PStr ''abc'') = Inr PNone
   \<and> py_int example_lib (PStr ''12'') = Inr (PInt 12)
   \<and> from_mongo example_lib (IntField (PInt 7)) (PStr ''12'') = Inr (PInt 12)"
proof -
  have a: "py_int example_lib PNone = Inl TypeError" by simp
  have b: "py_int example_lib (PStr ''abc'') = Inl ValueError"
    by (simp add: example_lib_def read_int_def read_digits_def)
  have c: "py_int example_lib (PStr ''12'') = Inr (PInt 12)"
    by (simp add: example_lib_def read_int_def read_digits_def)
  from IntField_from_mongo_failure [of example_lib PNone "PInt 7"] a
  have a': "from_mongo example_lib (IntField (PInt 7)) PNone = Inr (PInt 7)" by blast
  from IntField_from_mongo_failure [of example_lib "PStr ''abc''" "PInt 7" ValueError] b
  have b': "from_mongo example_lib (IntField (PInt 7)) (PStr ''abc'') = Inr PNone" by simp
  from IntField_from_mongo_failure [of example_lib "PStr ''12''" "PInt 7" _ "PInt 12"] c
  have c': "from_mongo example_lib (IntField (PInt 7)) (PStr ''12'') = Inr (PInt 12)" by blast
  from a b c a' b' c' show ?thesis by blast
qed

text \<open>
  The string \<^verbatim>\<open>'abc'\<close> and NaN do not coerce (\<^verbatim>\<open>ValueError\<close>), and an \<^verbatim>\<open>IntField\<close> with
  default 0 decodes them to \<^verbatim>\<open>None\<close>, not to 0.
\<close>

theorem IntField_default_counterexample:
  "py_int example_lib (PStr ''abc'') = Inl ValueError
   \<and> from_mongo example_lib (IntField (PInt 0)) (PStr ''abc'') = Inr PNone
   \<and> py_int example_lib (PFloat NaN) = Inl ValueError
   \<and> from_mongo example_lib (IntField (PInt 0)) (PFloat NaN) = Inr PNone
   \<and> PNone \<noteq> PInt 0"
  by (simp add: from_mongo_def Field_from_mongo_def IntField_do_from_mongo_def
        example_lib_def read_int_def read_digits_def)










































section \<open>Claims about enum sets\<close>

lemma py_in_structural:
  assumes "\<forall>y \<in> set xs. py_eq x y = (x = y)"
  shows "py_in x xs \<longleftrightarrow> x \<in> set xs"
  using assms by (auto simp: py_in_def list_ex_iff)

lemma unique_items_structural:
  assumes "\<forall>x \<in> set xs \<union> set seen. hashable x \<and> (\<forall>y \<in> set xs \<union> set seen. py_eq x y = (x = y))"
  shows "\<exists>out. unique_items seen xs = Inr out \<and> distinct out
           \<and> set out = set xs - set seen
           \<and> (distinct xs \<and> set xs \<inter> set seen = {} \<longrightarrow> out = xs)"
  using assms
proof (induction xs arbitrary: seen)
  case Nil
  show ?case by simp
next
  case (Cons x xs)
  have hx: "hashable x" using Cons.prems by simp
  have inx: "py_in x seen \<longleftrightarrow> x \<in> set seen"
    using Cons.prems by (intro py_in_structural) auto
  show ?case
  proof (cases "x \<in> set seen")
    case True
    have "\<forall>x \<in> set xs \<union> set seen. hashable x \<and> (\<forall>y \<in> set xs \<union> set seen. py_eq x y = (x = y))"
      using Cons.prems by auto
    from Cons.IH [OF this] obtain out where o: "unique_items seen xs = Inr out" "distinct out"
        "set out = set xs - set seen" by blast
    with True hx inx show ?thesis by auto
  next
    case False
    have "\<forall>y \<in> set xs \<union> set (seen @ [x]). hashable y
            \<and> (\<forall>z \<in> set xs \<union> set (seen @ [x]). py_eq y z = (y = z))"
      using Cons.prems by auto
    from Cons.IH [OF this] obtain out where o: "unique_items (seen @ [x]) xs = Inr out"
        "distinct out" "set out = set xs - set (seen @ [x])"
        "distinct xs \<and> set xs \<inter> set (seen @ [x]) = {} \<longrightarrow> out = xs" by blast
    have u: "unique_items seen (x # xs) = Inr (x # out)"
      using False hx inx o(1) by simp
    have "distinct (x # out)" using o(2,3) by auto
    moreover have "set (x # out) = set (x # xs) - set seen" using o(3) False by auto
    moreover have "distinct (x # xs) \<and> set (x # xs) \<inter> set seen = {} \<longrightarrow> x # out = x # xs"
      using o(4) by auto
    ultimately show ?thesis using u by blast
  qed
qed

lemma try_map_same: "\<forall>x \<in> set xs. f x = Inr x \<Longrightarrow> try_map f xs = Inr xs"
  by (induction xs) simp_all

lemma EnumField_to_mongo_AUTO:
  "EnumField_to_mongo enum x ''AUTO'' = Inr (if py_in x enum then x else PNone)"
  by (simp add: EnumField_to_mongo_def Field_to_mongo_def Field_do_to_mongo_def
        EnumField_do_from_mongo_def)

lemma EnumField_from_mongo_item:
  "Field_from_mongo (EnumField_do_from_mongo enum x) = Inr (if py_in x enum then x else PNone)"
  by (simp add: Field_from_mongo_def EnumField_do_from_mongo_def)

lemma enum_py_in:
  assumes "enum_members enum" "x \<in> set enum" "set u \<subseteq> set enum"
  shows "py_in x u \<longleftrightarrow> x \<in> set u"
  using assms by (intro py_in_structural) (auto simp: enum_members_def)

text \<open>
  Values that are equal without being the same do not form a set: \<^verbatim>\<open>(1,) == (1.0,)\<close>.
\<close>

lemma enum_members_equal_tuples:
  "py_eq (PTuple [PInt 1]) (PTuple [PFloat (Finite 1)])
   \<and> \<not> enum_members [PTuple [PInt 1], PTuple [PFloat (Finite 1)]]"
  by (simp add: enum_members_def)

lemma enum_unique_list:
  assumes "enum_members enum" "set s \<subseteq> set enum"
  shows "\<exists>u. unique_list (PList s) = Inr (PList u) \<and> distinct u \<and> set u = set s
           \<and> (distinct s \<longrightarrow> u = s)"
proof -
  have "\<forall>x \<in> set s \<union> set []. hashable x \<and> (\<forall>y \<in> set s \<union> set []. py_eq x y = (x = y))"
    using assms by (auto simp: enum_members_def)
  from unique_items_structural [OF this]
  obtain out where "unique_items [] s = Inr out" "distinct out" "set out = set s"
      "distinct s \<longrightarrow> out = s" by auto
  then show ?thesis by (auto simp: unique_list_def)
qed

lemma enum_no_None:
  assumes "enum_members enum" "set u \<subseteq> set enum"
  shows "filter (\<lambda>x. \<not> py_eq x PNone) u = u"
  using assms by (auto simp: py_eq_None enum_members_def filter_id_conv)

lemma enum_outbound:
  assumes "enum_members enum" "set s \<subseteq> set enum"
  shows "\<exists>u. distinct u \<and> set u = set s
           \<and> to_mongo L (EnumSetField enum) (PList s) ''AUTO''
               = Inr (if length u \<noteq> length enum then PList u else PList [])"
proof (cases "s = []")
  case True
  then have "to_mongo L (EnumSetField enum) (PList s) ''AUTO'' = Inr (PList [])"
    by (simp add: ListField_to_mongo_def EnumSetField_do_to_mongo_def SetField_do_to_mongo_def)
  with True show ?thesis by (intro exI [of _ "[]"]) simp
next
  case False
  from enum_unique_list [OF assms] obtain u where u: "unique_list (PList s) = Inr (PList u)"
      "distinct u" "set u = set s" by blast
  from u(3) False have ne: "u \<noteq> []" by auto
  have sub: "set u \<subseteq> set enum" using u(3) assms(2) by simp
  have "\<forall>x \<in> set u. EnumField_to_mongo enum x ''AUTO'' = Inr x"
    using sub enum_py_in [OF assms(1) _ subset_refl] by (auto simp: EnumField_to_mongo_AUTO)
  then have tm: "try_map (\<lambda>item. EnumField_to_mongo enum item ''AUTO'') u = Inr u"
    by (rule try_map_same)
  have l: "ListField_do_to_mongo (\<lambda>item. EnumField_to_mongo enum item ''AUTO'') (PList u)
             = Inr (PList u)"
    using ne tm enum_no_None [OF assms(1) sub] by (simp add: ListField_do_to_mongo_def)
  have "to_mongo L (EnumSetField enum) (PList s) ''AUTO''
          = Inr (if length u \<noteq> length enum then PList u else PList [])"
    using False u(1) l
    by (simp add: ListField_to_mongo_def EnumSetField_do_to_mongo_def SetField_do_to_mongo_def)
  with u(2,3) show ?thesis by blast
qed

lemma enum_inbound:
  assumes "enum_members enum" "set u \<subseteq> set enum" "distinct u" "u \<noteq> []"
  shows "from_mongo L (EnumSetField enum) (PList u)
           = Inr (PList (filter (\<lambda>x. x \<in> set u) enum))"
proof -
  have "\<forall>x \<in> set u. Field_from_mongo (EnumField_do_from_mongo enum x) = Inr x"
    using assms(2) enum_py_in [OF assms(1) _ subset_refl]
    by (auto simp: EnumField_from_mongo_item)
  then have tm: "try_map (\<lambda>item. Field_from_mongo (EnumField_do_from_mongo enum item)) u = Inr u"
    by (rule try_map_same)
  have l: "ListField_do_from_mongo (\<lambda>item. Field_from_mongo (EnumField_do_from_mongo enum item))
             (PList u) = Inr (PList u)"
    using tm enum_no_None [OF assms(1,2)] by (simp add: ListField_do_from_mongo_def)
  from enum_unique_list [OF assms(1,2)] assms(3)
  have ul: "unique_list (PList u) = Inr (PList u)" by auto
  have f: "filter (\<lambda>item. py_in item u) enum = filter (\<lambda>x. x \<in> set u) enum"
    using enum_py_in [OF assms(1) _ assms(2)] by (intro filter_cong) auto
  show ?thesis
    using l ul assms(4) f
    by (simp add: from_mongo_def Field_from_mongo_def EnumSetField_do_from_mongo_def
          SetField_do_from_mongo_def)
qed

lemma enum_inbound_empty:
  "from_mongo L (EnumSetField enum) (PList []) = Inr (PList enum)"
  by (simp add: from_mongo_def Field_from_mongo_def EnumSetField_do_from_mongo_def
        SetField_do_from_mongo_def ListField_do_from_mongo_def unique_list_def)

text \<open>
  Claim C3, as the code has it. For an \<^verbatim>\<open>EnumSetField\<close> whose allowed values form a set
  \<open>E\<close>: the outbound transform of a list that holds exactly the values of \<open>E\<close> (in any order,
  with or without repetitions) is the empty list; the inbound transform of the empty list
  is \<open>E\<close> in the order of the enum; and for every non-empty list \<open>S\<close> of allowed values that
  leaves some value of \<open>E\<close> out, the inbound transform of the outbound transform of \<open>S\<close> is
  the list of the values of \<open>S\<close> in the order of the enum, each once. The empty subset is
  excluded: it is stored as the empty list, which reads back as all of \<open>E\<close>.
\<close>

theorem EnumSetField_round_trip:
  assumes "enum_members enum"
  shows "(set full = set enum \<longrightarrow>
            to_mongo L (EnumSetField enum) (PList full) ''AUTO'' = Inr (PList []))
       \<and> from_mongo L (EnumSetField enum) (PList []) = Inr (PList enum)
       \<and> (s \<noteq> [] \<and> set s \<subset> set enum \<longrightarrow>
            (\<exists>stored. to_mongo L (EnumSetField enum) (PList s) ''AUTO'' = Inr stored
               \<and> from_mongo L (EnumSetField enum) stored
                   = Inr (PList (filter (\<lambda>x. x \<in> set s) enum))))"
proof -
  have d: "distinct enum" using assms by (simp add: enum_members_def)
  have a: "set full = set enum \<longrightarrow>
            to_mongo L (EnumSetField enum) (PList full) ''AUTO'' = Inr (PList [])"
  proof
    assume e: "set full = set enum"
    then have "set full \<subseteq> set enum" by simp
    from enum_outbound [OF assms this, of L] obtain u where u: "distinct u" "set u = set full"
        "to_mongo L (EnumSetField enum) (PList full) ''AUTO''
           = Inr (if length u \<noteq> length enum then PList u else PList [])" by blast
    from u(1,2) e d have "length u = length enum" by (metis distinct_card)
    with u(3) show "to_mongo L (EnumSetField enum) (PList full) ''AUTO'' = Inr (PList [])"
      by simp
  qed
  have c: "s \<noteq> [] \<and> set s \<subset> set enum \<longrightarrow>
            (\<exists>stored. to_mongo L (EnumSetField enum) (PList s) ''AUTO'' = Inr stored
               \<and> from_mongo L (EnumSetField enum) stored
                   = Inr (PList (filter (\<lambda>x. x \<in> set s) enum)))"
  proof
    assume h: "s \<noteq> [] \<and> set s \<subset> set enum"
    then have sub: "set s \<subseteq> set enum" by blast
    from enum_outbound [OF assms sub, of L] obtain u where u: "distinct u" "set u = set s"
        "to_mongo L (EnumSetField enum) (PList s) ''AUTO''
           = Inr (if length u \<noteq> length enum then PList u else PList [])" by blast
    have "card (set u) < card (set enum)"
      using h u(2) by (simp add: psubset_card_mono)
    with u(1) d have "length u \<noteq> length enum" by (simp add: distinct_card)
    with u(3) have t: "to_mongo L (EnumSetField enum) (PList s) ''AUTO'' = Inr (PList u)"
      by simp
    from h u(2) have ne: "u \<noteq> []" by auto
    from enum_inbound [OF assms _ u(1) ne, of L] sub u(2)
    have "from_mongo L (EnumSetField enum) (PList u)
            = Inr (PList (filter (\<lambda>x. x \<in> set s) enum))" by simp
    with t show "\<exists>stored. to_mongo L (EnumSetField enum) (PList s) ''AUTO'' = Inr stored
               \<and> from_mongo L (EnumSetField enum) stored
                   = Inr (PList (filter (\<lambda>x. x \<in> set s) enum))" by blast
  qed
  from a enum_inbound_empty [of L enum] c show ?thesis by blast
qed

lemmas enum_eval =
  from_mongo_def Field_from_mongo_def EnumSetField_do_from_mongo_def
  SetField_do_from_mongo_def ListField_do_from_mongo_def EnumField_do_from_mongo_def
  ListField_to_mongo_def EnumSetField_do_to_mongo_def SetField_do_to_mongo_def
  ListField_do_to_mongo_def EnumField_to_mongo_def Field_to_mongo_def Field_do_to_mongo_def
  unique_list_def py_in_def

lemma psubset_by_element: "A \<subseteq> B \<Longrightarrow> x \<in> B \<Longrightarrow> x \<notin> A \<Longrightarrow> A \<subset> B"
  by blast

theorem EnumSetField_round_trip_witness:
  "enum_members [PStr ''a'', PStr ''b'', PStr ''c'']
   \<and> to_mongo example_lib (EnumSetField [PStr ''a'', PStr ''b'', PStr ''c''])
         (PList [PStr ''c'', PStr ''a'', PStr ''b'', PStr ''a'']) ''AUTO'' = Inr (PList [])
   \<and> from_mongo example_lib (EnumSetField [PStr ''a'', PStr ''b'', PStr ''c'']) (PList [])
       = Inr (PList [PStr ''a'', PStr ''b'', PStr ''c''])
   \<and> to_mongo example_lib (EnumSetField [PStr ''a'', PStr ''b'', PStr ''c''])
         (PList [PStr ''c'', PStr ''a'', PStr ''c'']) ''AUTO'' = Inr (PList [PStr ''c'', PStr ''a''])
   \<and> from_mongo example_lib (EnumSetField [PStr ''a'', PStr ''b'', PStr ''c''])
         (PList [PStr ''c'', PStr ''a'']) = Inr (PList [PStr ''a'', PStr ''c''])"
proof -
  let ?E = "[PStr ''a'', PStr ''b'', PStr ''c'']"
  let ?full = "[PStr ''c'', PStr ''a'', PStr ''b'', PStr ''a'']"
  let ?s = "[PStr ''c'', PStr ''a'', PStr ''c'']"
  have m: "enum_members ?E" by (simp add: enum_members_def)
  have f: "set ?full = set ?E" by (simp add: insert_commute)
  have "set ?s \<subset> set ?E"
    by (rule psubset_by_element [where x = "PStr ''b''"]) simp_all
  then have p: "?s \<noteq> [] \<and> set ?s \<subset> set ?E" by simp
  have t: "to_mongo example_lib (EnumSetField ?E) (PList ?s) ''AUTO''
             = Inr (PList [PStr ''c'', PStr ''a''])"
    by (simp add: enum_eval)
  note T = EnumSetField_round_trip [OF m, of ?full example_lib ?s]
  from T have "set ?full = set ?E \<longrightarrow>
      to_mongo example_lib (EnumSetField ?E) (PList ?full) ''AUTO'' = Inr (PList [])"
    by (rule conjunct1)
  then have r1: "to_mongo example_lib (EnumSetField ?E) (PList ?full) ''AUTO'' = Inr (PList [])"
    using f by (rule mp)
  from T have r2: "from_mongo example_lib (EnumSetField ?E) (PList []) = Inr (PList ?E)"
    by (rule conjunct1 [OF conjunct2])
  from T have "?s \<noteq> [] \<and> set ?s \<subset> set ?E \<longrightarrow>
      (\<exists>stored. to_mongo example_lib (EnumSetField ?E) (PList ?s) ''AUTO'' = Inr stored
               \<and> from_mongo example_lib (EnumSetField ?E) stored
                   = Inr (PList (filter (\<lambda>x. x \<in> set ?s) ?E)))"
    by (rule conjunct2 [OF conjunct2])
  then have "\<exists>stored. to_mongo example_lib (EnumSetField ?E) (PList ?s) ''AUTO'' = Inr stored
               \<and> from_mongo example_lib (EnumSetField ?E) stored
                   = Inr (PList (filter (\<lambda>x. x \<in> set ?s) ?E))"
    using p by (rule mp)
  then obtain stored where st: "to_mongo example_lib (EnumSetField ?E) (PList ?s) ''AUTO'' = Inr stored"
    and fm: "from_mongo example_lib (EnumSetField ?E) stored
               = Inr (PList (filter (\<lambda>x. x \<in> set ?s) ?E))"
    by (elim exE conjE)
  from st t have "stored = PList [PStr ''c'', PStr ''a'']" by (simp only: sum.inject)
  with fm have "from_mongo example_lib (EnumSetField ?E) (PList [PStr ''c'', PStr ''a''])
                  = Inr (PList (filter (\<lambda>x. x \<in> set ?s) ?E))" by (simp only:)
  also have "filter (\<lambda>x. x \<in> set ?s) ?E = [PStr ''a'', PStr ''c'']" by simp
  finally have i: "from_mongo example_lib (EnumSetField ?E) (PList [PStr ''c'', PStr ''a''])
                      = Inr (PList [PStr ''a'', PStr ''c''])" .
  show ?thesis
    by (intro conjI) (rule m, rule r1, rule r2, rule t, rule i)
qed

text \<open>
  The empty list is a proper subset of a non-empty enum, is stored as the empty list, and
  reads back as the full enum.
\<close>

theorem EnumSetField_empty_subset_counterexample:
  "set [] \<subset> set [PStr ''a'', PStr ''b'']
   \<and> to_mongo example_lib (EnumSetField [PStr ''a'', PStr ''b'']) (PList []) ''AUTO''
       = Inr (PList [])
   \<and> from_mongo example_lib (EnumSetField [PStr ''a'', PStr ''b'']) (PList [])
       = Inr (PList [PStr ''a'', PStr ''b''])
   \<and> PList [PStr ''a'', PStr ''b''] \<noteq> PList (filter (\<lambda>x. x \<in> set []) [PStr ''a'', PStr ''b''])"
proof (intro conjI)
  show "set [] \<subset> set [PStr ''a'', PStr ''b'']"
    by (rule psubset_by_element [where x = "PStr ''a''"]) simp_all
  show "to_mongo example_lib (EnumSetField [PStr ''a'', PStr ''b'']) (PList []) ''AUTO''
       = Inr (PList [])"
    by (simp add: enum_eval)
  show "from_mongo example_lib (EnumSetField [PStr ''a'', PStr ''b'']) (PList [])
       = Inr (PList [PStr ''a'', PStr ''b''])"
    by (simp add: enum_eval)
  show "PList [PStr ''a'', PStr ''b''] \<noteq> PList (filter (\<lambda>x. x \<in> set []) [PStr ''a'', PStr ''b''])"
    by simp
qed

end
